theory Spec2Isabelle
  imports Main "HOL-Library.Word"
begin

unbundle bit_operations_syntax

section \<open>Data model of SDL\_kmsdrmvideo.c\<close>

text \<open>
  C \<open>int\<close> values are modelled as \<open>int\<close> (no arithmetic of the driver can overflow),
  \<open>uint32_t\<close> kernel object ids as 32-bit words. A C array with its \<open>count_*\<close> field is a
  list; the count is the length of the list. A pointer that may be \<open>NULL\<close> is an option.
\<close>

type_synonym u32 = "32 word"
type_synonym u16 = "16 word"

record drmModeModeInfo =
  clock :: u32
  hdisplay :: u16
  vdisplay :: u16
  vrefresh :: u32

record drmModeRes =
  res_crtcs :: "u32 list"
  res_connectors :: "u32 list"
  res_encoders :: "u32 list"

definition count_crtcs :: "drmModeRes \<Rightarrow> int" where
  "count_crtcs r = int (length (res_crtcs r))"

definition count_connectors :: "drmModeRes \<Rightarrow> int" where
  "count_connectors r = int (length (res_connectors r))"

definition count_encoders :: "drmModeRes \<Rightarrow> int" where
  "count_encoders r = int (length (res_encoders r))"

datatype drmModeConnection =
  DRM_MODE_CONNECTED | DRM_MODE_DISCONNECTED | DRM_MODE_UNKNOWNCONNECTION

record drmModeConnector =
  connector_id :: u32
  encoder_id :: u32
  connection :: drmModeConnection
  modes :: "drmModeModeInfo list"
  conn_encoders :: "u32 list"

definition count_modes :: "drmModeConnector \<Rightarrow> int" where
  "count_modes c = int (length (modes c))"

record drmModeEncoder =
  enc_encoder_id :: u32
  crtc_id :: u32
  possible_crtcs :: u32

record drmModeCrtc =
  crtc_crtc_id :: u32
  buffer_id :: u32
  crtc_x :: u32
  crtc_y :: u32
  crtc_width :: u32
  crtc_height :: u32
  mode_valid :: int
  crtc_mode :: drmModeModeInfo

text \<open>\<open>SDL_DisplayData\<close>, \<open>SDL_VideoData\<close>, \<open>SDL_WindowData\<close> and \<open>KMSDRM_FBInfo\<close> of
  SDL\_kmsdrmvideo.h, with the fields this file reads or writes.\<close>

record SDL_DisplayData =
  conn_id :: u32
  dd_crtc_id :: u32
  dd_mode :: drmModeModeInfo
  saved_crtc :: "drmModeCrtc option"

record SDL_VideoData =
  devindex :: int
  drm_fd :: int
  gbm :: "nat option"

record SDL_VideoDevice =
  driverdata :: SDL_VideoData

record SDL_DisplayMode =
  format :: u32
  dm_w :: int
  dm_h :: int
  refresh_rate :: int

record SDL_VideoDisplay =
  desktop_mode :: SDL_DisplayMode
  current_mode :: SDL_DisplayMode
  disp_driverdata :: SDL_DisplayData

record KMSDRM_FBInfo =
  fb_drm_fd :: int
  fb_id :: u32

record gbm_bo =
  bo_width :: u32
  bo_height :: u32
  bo_stride :: u32
  bo_handle :: u32
  user_data :: "KMSDRM_FBInfo option"

record SDL_WindowData =
  gs :: "nat option"
  curr_bo :: "nat option"
  next_bo :: "nat option"
  waiting_for_flip :: bool
  double_buffer :: bool
  egl_surface :: "nat option"

record SDL_Window =
  win_driverdata :: "SDL_WindowData option"

subsection \<open>Constants of the system headers\<close>

definition ENOENT :: int where
  "ENOENT = 2"

definition POLLIN :: u16 where
  "POLLIN = 0x001"

definition POLLERR :: u16 where
  "POLLERR = 0x008"

definition POLLHUP :: u16 where
  "POLLHUP = 0x010"

definition SDL_PIXELFORMAT_ARGB8888 :: u32 where
  "SDL_PIXELFORMAT_ARGB8888 = 0x16362004"

text \<open>Modelled from the spec: \<open>SDL_SetError\<close> and \<open>SDL_OutOfMemory\<close> are defined in SDL's
  error module, outside this file. They record a message and report the failure to the
  caller as a negative result, which in SDL is always \<open>-1\<close>.\<close>

definition SDL_SetError :: int where
  "SDL_SetError = - 1"

definition SDL_OutOfMemory :: int where
  "SDL_OutOfMemory = - 1"

subsection \<open>The environment: kernel, C library, libdrm, libgbm\<close>

datatype alloc_site =
  A_DisplayData | A_devname | A_VideoDevice | A_VideoData | A_FBInfo | A_WindowData

text \<open>
  Everything the driver asks of its surroundings is a field of \<open>kernel\<close>: \<open>k_open d\<close> is
  the descriptor \<open>open("/dev/dri/card<d>", O_RDWR | O_CLOEXEC)\<close> returns (\<open>None\<close> for the
  failure value \<open>-1\<close>); \<open>dri_dir\<close> is the listing of \<open>/dev/dri/\<close> (\<open>None\<close> when \<open>stat\<close>,
  \<open>access\<close> or \<open>opendir\<close> fail); the \<open>drmMode*\<close> fields are the libdrm queries of this
  descriptor; \<open>SDL_calloc\<close> says whether the allocation made at a site succeeds;
  \<open>SDL_INPUT_LINUXEV\<close> and \<open>SDL_VIDEO_OPENGL_EGL\<close> are the two build options the file
  tests with \<open>#ifdef\<close>.
\<close>

record kernel =
  k_open :: "int \<Rightarrow> nat option"
  dri_is_dir :: bool
  dri_access :: bool
  dri_dir :: "string list option"
  SDL_KMSDRM_LoadSymbols :: bool
  SDL_calloc :: "alloc_site \<Rightarrow> bool"
  gbm_create_device :: "int \<Rightarrow> nat option"
  drmModeGetResources :: "int \<Rightarrow> drmModeRes option"
  drmModeGetConnector :: "int \<Rightarrow> u32 \<Rightarrow> drmModeConnector option"
  drmModeGetEncoder :: "int \<Rightarrow> u32 \<Rightarrow> drmModeEncoder option"
  drmModeGetCrtc :: "int \<Rightarrow> u32 \<Rightarrow> drmModeCrtc option"
  drmModeSetCrtc :: "int \<Rightarrow> u32 \<Rightarrow> u32 \<Rightarrow> u32 \<Rightarrow> u32 \<Rightarrow> u32 list \<Rightarrow> drmModeModeInfo \<Rightarrow> int"
  drmModeAddFB :: "int \<Rightarrow> u32 \<Rightarrow> u32 \<Rightarrow> nat \<Rightarrow> nat \<Rightarrow> u32 \<Rightarrow> u32 \<Rightarrow> int \<times> u32"
  SDL_INPUT_LINUXEV :: bool
  SDL_VIDEO_OPENGL_EGL :: bool

definition c_open :: "kernel \<Rightarrow> int \<Rightarrow> int" where
  "c_open k d = (case k_open k d of None \<Rightarrow> - 1 | Some fd \<Rightarrow> int fd)"

text \<open>The calls the driver makes, in the order it makes them, are its trace.\<close>

datatype event =
    Ev_open int int
  | Ev_close int
  | Ev_LoadSymbols bool
  | Ev_UnloadSymbols
  | Ev_SDL_calloc alloc_site bool
  | Ev_SDL_free alloc_site
  | Ev_SDL_SetError string
  | Ev_SDL_Log string
  | Ev_gbm_create_device int "nat option"
  | Ev_gbm_device_destroy nat
  | Ev_drmModeGetResources int "drmModeRes option"
  | Ev_drmModeFreeResources drmModeRes
  | Ev_drmModeGetConnector u32 "u32 option"
  | Ev_drmModeFreeConnector u32
  | Ev_drmModeGetEncoder u32 "u32 option"
  | Ev_drmModeFreeEncoder u32
  | Ev_drmModeGetCrtc u32 "u32 option"
  | Ev_drmModeFreeCrtc u32
  | Ev_drmModeSetCrtc int u32 u32 u32 u32 "u32 list" drmModeModeInfo
  | Ev_drmModeAddFB int u32 u32 nat nat u32 u32 "int \<times> u32"
  | Ev_gbm_bo_set_user_data KMSDRM_FBInfo
  | Ev_SDL_AddVideoDisplay SDL_VideoDisplay
  | Ev_SDL_EVDEV_Init
  | Ev_SDL_EVDEV_Quit
  | Ev_KMSDRM_InitMouse
  | Ev_SDL_GL_UnloadLibrary
  | Ev_poll int int
  | Ev_drmHandleEvent int
  | Ev_gbm_surface_release_buffer "nat option" nat
  | Ev_SDL_EGL_MakeCurrent_none
  | Ev_SDL_EGL_DestroySurface nat
  | Ev_gbm_surface_destroy nat

text \<open>
  What a trace leaves behind. A call that hands an object to the driver acquires it, the
  matching free, close or destroy call releases it; \<open>outstanding t\<close> lists the objects
  acquired and not yet released when the trace \<open>t\<close> ends. Kernel query objects are
  identified by the id they carry, the resource list by its contents.
\<close>

datatype resource =
    R_fd int
  | R_symbols
  | R_mem alloc_site
  | R_gbm nat
  | R_resources drmModeRes
  | R_connector u32
  | R_encoder u32
  | R_crtc u32

fun acquired :: "event \<Rightarrow> resource option" where
  "acquired (Ev_open d fd) = (if 0 \<le> fd then Some (R_fd fd) else None)"
| "acquired (Ev_LoadSymbols ok) = (if ok then Some R_symbols else None)"
| "acquired (Ev_SDL_calloc a ok) = (if ok then Some (R_mem a) else None)"
| "acquired (Ev_gbm_create_device fd g) = map_option R_gbm g"
| "acquired (Ev_drmModeGetResources fd r) = map_option R_resources r"
| "acquired (Ev_drmModeGetConnector i c) = map_option R_connector c"
| "acquired (Ev_drmModeGetEncoder i e) = map_option R_encoder e"
| "acquired (Ev_drmModeGetCrtc i c) = map_option R_crtc c"
| "acquired _ = None"

fun released :: "event \<Rightarrow> resource option" where
  "released (Ev_close fd) = Some (R_fd fd)"
| "released Ev_UnloadSymbols = Some R_symbols"
| "released (Ev_SDL_free a) = Some (R_mem a)"
| "released (Ev_gbm_device_destroy g) = Some (R_gbm g)"
| "released (Ev_drmModeFreeResources r) = Some (R_resources r)"
| "released (Ev_drmModeFreeConnector c) = Some (R_connector c)"
| "released (Ev_drmModeFreeEncoder e) = Some (R_encoder e)"
| "released (Ev_drmModeFreeCrtc c) = Some (R_crtc c)"
| "released _ = None"

definition track :: "resource list \<Rightarrow> event \<Rightarrow> resource list" where
  "track live ev =
     (case acquired ev of
        Some r \<Rightarrow> r # live
      | None \<Rightarrow> (case released ev of Some r \<Rightarrow> remove1 r live | None \<Rightarrow> live))"

definition outstanding :: "event list \<Rightarrow> resource list" where
  "outstanding t = foldl track [] t"

section \<open>Device enumeration\<close>

text \<open>\<open>check_modestting\<close>: the probe of one \<open>/dev/dri/card<n>\<close>; \<open>n\<close> is the
  parameter \<open>devindex\<close>, \<open>fd\<close> the local \<open>drm_fd\<close>.\<close>

definition check_modestting :: "kernel \<Rightarrow> int \<Rightarrow> bool \<times> event list" where
  "check_modestting k n =
     (let fd = c_open k n in
      if 0 \<le> fd then
        (if SDL_KMSDRM_LoadSymbols k then
           (case drmModeGetResources k fd of
              Some resources \<Rightarrow>
                (0 < count_connectors resources \<and> 0 < count_encoders resources
                   \<and> 0 < count_crtcs resources,
                 [Ev_open n fd, Ev_LoadSymbols True,
                  Ev_drmModeGetResources fd (Some resources),
                  Ev_drmModeFreeResources resources,
                  Ev_UnloadSymbols, Ev_close fd])
            | None \<Rightarrow>
                (False,
                 [Ev_open n fd, Ev_LoadSymbols True,
                  Ev_drmModeGetResources fd None,
                  Ev_UnloadSymbols, Ev_close fd]))
         else (False, [Ev_open n fd, Ev_LoadSymbols False, Ev_close fd]))
      else (False, [Ev_open n fd]))"

text \<open>\<open>get_dricount\<close>: the \<open>readdir\<close> loop counts the names longer than four characters
  that start with \<open>card\<close>.\<close>

fun count_cards :: "string list \<Rightarrow> int \<Rightarrow> int" where
  "count_cards [] devcount = devcount"
| "count_cards (d_name # rest) devcount =
     (if 4 < length d_name \<and> take 4 d_name = ''card''
      then count_cards rest (devcount + 1)
      else count_cards rest devcount)"

definition get_dricount :: "kernel \<Rightarrow> int" where
  "get_dricount k =
     (if \<not> dri_is_dir k then 0
      else if \<not> dri_access k then 0
      else (case dri_dir k of None \<Rightarrow> 0 | Some names \<Rightarrow> count_cards names 0))"

text \<open>\<open>get_driindex\<close>: \<open>for (i = 0; i < devcount; i++)\<close>, returning at the first index the
  probe accepts and \<open>-ENOENT\<close> after the loop.\<close>

function get_driindex_loop :: "kernel \<Rightarrow> int \<Rightarrow> int \<Rightarrow> int \<times> event list" where
  "get_driindex_loop k devcount i =
     (if i < devcount then
        (case check_modestting k i of
           (True, t) \<Rightarrow> (i, t)
         | (False, t) \<Rightarrow>
             (case get_driindex_loop k devcount (i + 1) of (r, t') \<Rightarrow> (r, t @ t')))
      else (- ENOENT, []))"
  by pat_completeness auto
termination
  by (relation "measure (\<lambda>(k, devcount, i). nat (devcount - i))") auto

definition get_driindex :: "kernel \<Rightarrow> int \<times> event list" where
  "get_driindex k = get_driindex_loop k (get_dricount k) 0"

text \<open>\<open>KMSDRM_CreateDevice\<close>. The function pointers it installs are constant and left
  out; the device is its driver data.\<close>

definition KMSDRM_CreateDevice :: "kernel \<Rightarrow> int \<Rightarrow> SDL_VideoDevice option \<times> event list" where
  "KMSDRM_CreateDevice k devindex0 =
     (case (if devindex0 = 0 \<or> 99 < devindex0 then get_driindex k else (devindex0, [])) of
        (idx, t) \<Rightarrow>
          if idx < 0 then
            (None, t @ [Ev_SDL_SetError ''devindex must be between 0 and 99''])
          else if \<not> SDL_KMSDRM_LoadSymbols k then
            (None, t @ [Ev_LoadSymbols False])
          else if \<not> SDL_calloc k A_VideoDevice then
            (None, t @ [Ev_LoadSymbols True, Ev_SDL_calloc A_VideoDevice False])
          else if \<not> SDL_calloc k A_VideoData then
            (None, t @ [Ev_LoadSymbols True, Ev_SDL_calloc A_VideoDevice True,
                        Ev_SDL_calloc A_VideoData False, Ev_SDL_free A_VideoDevice])
          else
            (Some \<lparr>driverdata = \<lparr>devindex = idx, drm_fd = - 1, gbm = None\<rparr>\<rparr>,
             t @ [Ev_LoadSymbols True, Ev_SDL_calloc A_VideoDevice True,
                  Ev_SDL_calloc A_VideoData True]))"

section \<open>Framebuffers of buffer objects\<close>

text \<open>\<open>KMSDRM_FBFromBO\<close>. The buffer object is passed in and returned: the call may attach
  user data to it. \<open>drmModeAddFB\<close> returns its status and the id it stores through the
  pointer \<open>&fb_info->fb_id\<close>.\<close>

definition KMSDRM_FBFromBO ::
  "kernel \<Rightarrow> SDL_VideoData \<Rightarrow> gbm_bo \<Rightarrow> KMSDRM_FBInfo option \<times> gbm_bo \<times> event list" where
  "KMSDRM_FBFromBO k v bo =
     (case user_data bo of
        Some fb_info \<Rightarrow> (Some fb_info, bo, [])
      | None \<Rightarrow>
          if \<not> SDL_calloc k A_FBInfo then (None, bo, [Ev_SDL_calloc A_FBInfo False])
          else
            (let w = bo_width bo; h = bo_height bo;
                 stride = bo_stride bo; handle = bo_handle bo;
                 r = drmModeAddFB k (drm_fd v) w h 24 32 stride handle;
                 call = Ev_drmModeAddFB (drm_fd v) w h 24 32 stride handle r
             in if fst r \<noteq> 0 then
                  (None, bo, [Ev_SDL_calloc A_FBInfo True, call, Ev_SDL_free A_FBInfo])
                else
                  (let fb_info = \<lparr>fb_drm_fd = drm_fd v, fb_id = snd r\<rparr>
                   in (Some fb_info, bo\<lparr>user_data := Some fb_info\<rparr>,
                       [Ev_SDL_calloc A_FBInfo True, call,
                        Ev_gbm_bo_set_user_data fb_info]))))"

text \<open>Repeated calls on one buffer, each in its own environment; the buffer is threaded
  through, the traces are concatenated.\<close>

fun FBFromBO_calls :: "(kernel \<times> SDL_VideoData) list \<Rightarrow> gbm_bo \<Rightarrow> gbm_bo \<times> event list" where
  "FBFromBO_calls [] bo = (bo, [])"
| "FBFromBO_calls ((k, v) # rest) bo =
     (case KMSDRM_FBFromBO k v bo of
        (r, bo', t) \<Rightarrow> (case FBFromBO_calls rest bo' of (bo'', t') \<Rightarrow> (bo'', t @ t')))"

fun fb_created :: "event \<Rightarrow> bool" where
  "fb_created (Ev_drmModeAddFB fd w h depth bpp stride handle r) = (fst r = 0)"
| "fb_created _ = False"

section \<open>Waiting for a page flip\<close>

text \<open>
  One return of \<open>poll\<close>: its result, the \<open>revents\<close> it stored, and the DRM events a
  following \<open>drmHandleEvent\<close> reads from the descriptor. The environment of
  \<open>KMSDRM_WaitPageFlip\<close> is the list of these returns, in order. When the list is used up
  and the loop would poll again, \<open>poll\<close> never returns and neither does the function: the
  result is \<open>None\<close>.
\<close>

datatype drm_event = DRM_EVENT_VBLANK | DRM_EVENT_FLIP_COMPLETE

record poll_return =
  poll_ret :: int
  revents :: u16
  drm_events :: "drm_event list"

text \<open>\<open>KMSDRM_FlipHandler\<close> stores \<open>SDL_FALSE\<close> through its \<open>data\<close> pointer, which the page
  flip was queued with: the window's \<open>waiting_for_flip\<close>.\<close>

definition KMSDRM_FlipHandler :: "bool \<Rightarrow> bool" where
  "KMSDRM_FlipHandler waiting = False"

text \<open>libdrm's \<open>drmHandleEvent\<close> with the event context of \<open>KMSDRM_WaitPageFlip\<close>: it calls
  \<open>page_flip_handler\<close> for every flip completion it reads; the context has no vblank
  handler, so every other event is skipped.\<close>

fun drmHandleEvent :: "drm_event list \<Rightarrow> bool \<Rightarrow> bool" where
  "drmHandleEvent [] waiting = waiting"
| "drmHandleEvent (DRM_EVENT_FLIP_COMPLETE # es) waiting =
     drmHandleEvent es (KMSDRM_FlipHandler waiting)"
| "drmHandleEvent (DRM_EVENT_VBLANK # es) waiting = drmHandleEvent es waiting"

fun KMSDRM_WaitPageFlip ::
  "SDL_VideoData \<Rightarrow> SDL_WindowData \<Rightarrow> int \<Rightarrow> poll_return list
     \<Rightarrow> (bool \<times> SDL_WindowData \<times> event list) option" where
  "KMSDRM_WaitPageFlip v windata timeout [] =
     (if waiting_for_flip windata then None else Some (True, windata, []))"
| "KMSDRM_WaitPageFlip v windata timeout (p # rest) =
     (if waiting_for_flip windata then
        (if poll_ret p < 0 then
           Some (False, windata, [Ev_poll (drm_fd v) timeout, Ev_SDL_Log ''DRM poll error''])
         else if revents p AND (POLLHUP OR POLLERR) \<noteq> 0 then
           Some (False, windata,
                 [Ev_poll (drm_fd v) timeout, Ev_SDL_Log ''DRM poll hup or error''])
         else if revents p AND POLLIN \<noteq> 0 then
           (case KMSDRM_WaitPageFlip v
                   (windata\<lparr>waiting_for_flip :=
                      drmHandleEvent (drm_events p) (waiting_for_flip windata)\<rparr>)
                   timeout rest of
              None \<Rightarrow> None
            | Some (b, windata', t) \<Rightarrow>
                Some (b, windata',
                      [Ev_poll (drm_fd v) timeout, Ev_drmHandleEvent (drm_fd v)] @ t))
         else
           Some (False, windata,
                 [Ev_poll (drm_fd v) timeout,
                  Ev_SDL_Log ''Dropping frame while waiting_for_flip'']))
      else Some (True, windata, []))"

section \<open>Display negotiation\<close>

record init_result =
  init_ret :: int
  init_viddata :: SDL_VideoData
  init_display :: "SDL_VideoDisplay option"
  init_trace :: "event list"

text \<open>The connector loop: \<open>for (i = 0; i < resources->count_connectors; i++)\<close>. It breaks
  at the first connector that is connected and has a mode and leaves it in \<open>connector\<close>;
  when it runs to the end, \<open>connector\<close> is \<open>NULL\<close> and \<open>i == count_connectors\<close>.\<close>

fun find_connector ::
  "kernel \<Rightarrow> int \<Rightarrow> u32 list \<Rightarrow> drmModeConnector option \<times> event list" where
  "find_connector k fd [] = (None, [])"
| "find_connector k fd (cid # rest) =
     (case drmModeGetConnector k fd cid of
        None \<Rightarrow>
          (case find_connector k fd rest of
             (r, t) \<Rightarrow> (r, Ev_drmModeGetConnector cid None # t))
      | Some connector \<Rightarrow>
          if connection connector = DRM_MODE_CONNECTED \<and> 0 < count_modes connector then
            (Some connector, [Ev_drmModeGetConnector cid (Some (connector_id connector))])
          else
            (case find_connector k fd rest of
               (r, t) \<Rightarrow>
                 (r, [Ev_drmModeGetConnector cid (Some (connector_id connector)),
                      Ev_drmModeFreeConnector (connector_id connector)] @ t)))"

text \<open>The encoder loop, with its inner loop over \<open>connector->encoders\<close>. \<open>found\<close> is false
  whenever an iteration starts.\<close>

fun find_encoder ::
  "kernel \<Rightarrow> int \<Rightarrow> drmModeConnector \<Rightarrow> u32 list \<Rightarrow> drmModeEncoder option \<times> event list" where
  "find_encoder k fd connector [] = (None, [])"
| "find_encoder k fd connector (eid # rest) =
     (case drmModeGetEncoder k fd eid of
        None \<Rightarrow>
          (case find_encoder k fd connector rest of
             (r, t) \<Rightarrow> (r, Ev_drmModeGetEncoder eid None # t))
      | Some encoder \<Rightarrow>
          (let found =
                 (if enc_encoder_id encoder = encoder_id connector then True
                  else enc_encoder_id encoder \<in> set (conn_encoders connector))
           in if found then
                (Some encoder, [Ev_drmModeGetEncoder eid (Some (enc_encoder_id encoder))])
              else
                (case find_encoder k fd connector rest of
                   (r, t) \<Rightarrow>
                     (r, [Ev_drmModeGetEncoder eid (Some (enc_encoder_id encoder)),
                          Ev_drmModeFreeEncoder (enc_encoder_id encoder)] @ t))))"

text \<open>The CRTC loop, entered when the encoder's own CRTC could not be read: the first
  index \<open>i\<close> whose bit is set in \<open>possible_crtcs\<close> decides, whether or not the query of
  that CRTC succeeds. \<open>1 << i\<close> is defined in C for \<open>i < 31\<close> only; the model shifts a 32-bit
  word, so no bit is found at \<open>i \<ge> 32\<close>.\<close>

fun pick_crtc ::
  "kernel \<Rightarrow> int \<Rightarrow> drmModeEncoder \<Rightarrow> u32 list \<Rightarrow> nat
     \<Rightarrow> drmModeEncoder \<times> drmModeCrtc option \<times> event list" where
  "pick_crtc k fd encoder [] i = (encoder, None, [])"
| "pick_crtc k fd encoder (c # rest) i =
     (if possible_crtcs encoder AND push_bit i 1 \<noteq> 0 then
        (encoder\<lparr>crtc_id := c\<rparr>, drmModeGetCrtc k fd c,
         [Ev_drmModeGetCrtc c (map_option crtc_crtc_id (drmModeGetCrtc k fd c))])
      else pick_crtc k fd encoder rest (Suc i))"

text \<open>The saved CRTC: first the encoder's own (\<open>encoder->crtc_id\<close>), then, when that
  query returns \<open>NULL\<close>, the CRTC loop. The encoder is returned with the \<open>crtc_id\<close> the loop
  may have stored in it.\<close>

definition select_crtc ::
  "kernel \<Rightarrow> int \<Rightarrow> drmModeEncoder \<Rightarrow> u32 list
     \<Rightarrow> drmModeEncoder \<times> drmModeCrtc option \<times> event list" where
  "select_crtc k fd encoder crtcs =
     (case drmModeGetCrtc k fd (crtc_id encoder) of
        Some crtc \<Rightarrow>
          (encoder, Some crtc, [Ev_drmModeGetCrtc (crtc_id encoder) (Some (crtc_crtc_id crtc))])
      | None \<Rightarrow>
          (case pick_crtc k fd encoder crtcs 0 of
             (e, c, tp) \<Rightarrow> (e, c, Ev_drmModeGetCrtc (crtc_id encoder) None # tp)))"

text \<open>The code after the label \<open>cleanup:\<close>, reached by every \<open>goto cleanup\<close>: it frees
  the three query objects that are not \<open>NULL\<close> and then, under \<open>if (ret != 0)\<close>, undoes
  the rest. Every \<open>goto cleanup\<close> of the function comes with a non-zero \<open>ret\<close>.\<close>

definition VideoInit_cleanup ::
  "int \<Rightarrow> SDL_VideoData \<Rightarrow> SDL_DisplayData \<Rightarrow> drmModeRes option
     \<Rightarrow> drmModeConnector option \<Rightarrow> drmModeEncoder option \<Rightarrow> event list \<Rightarrow> init_result" where
  "VideoInit_cleanup r v dispdata resources connector encoder t =
     (let t_free =
            (case encoder of
               Some e \<Rightarrow> [Ev_drmModeFreeEncoder (enc_encoder_id e)] | None \<Rightarrow> [])
          @ (case connector of
               Some c \<Rightarrow> [Ev_drmModeFreeConnector (connector_id c)] | None \<Rightarrow> [])
          @ (case resources of
               Some rs \<Rightarrow> [Ev_drmModeFreeResources rs] | None \<Rightarrow> [])
      in if r \<noteq> 0 then
           \<lparr>init_ret = r,
            init_viddata =
              v\<lparr>gbm := None, drm_fd := (if 0 \<le> drm_fd v then - 1 else drm_fd v)\<rparr>,
            init_display = None,
            init_trace = t @ t_free
              @ (case saved_crtc dispdata of
                   Some c \<Rightarrow> [Ev_drmModeFreeCrtc (crtc_crtc_id c)] | None \<Rightarrow> [])
              @ (case gbm v of Some g \<Rightarrow> [Ev_gbm_device_destroy g] | None \<Rightarrow> [])
              @ (if 0 \<le> drm_fd v then [Ev_close (drm_fd v)] else [])
              @ [Ev_SDL_free A_DisplayData]\<rparr>
         else
           \<lparr>init_ret = r, init_viddata = v, init_display = None,
            init_trace = t @ t_free\<rparr>)"

text \<open>\<open>SDL_calloc\<close> zeroes the display data.\<close>

definition calloc_DisplayData :: SDL_DisplayData where
  "calloc_DisplayData =
     \<lparr>conn_id = 0, dd_crtc_id = 0,
      dd_mode = \<lparr>clock = 0, hdisplay = 0, vdisplay = 0, vrefresh = 0\<rparr>,
      saved_crtc = None\<rparr>"

text \<open>The tail of \<open>KMSDRM_VideoInit\<close>, from the saved CRTC on: mode resolution, the display
  mode and the registration of the display. It returns without passing \<open>cleanup:\<close>.\<close>

definition VideoInit_register ::
  "kernel \<Rightarrow> SDL_VideoData \<Rightarrow> SDL_DisplayData \<Rightarrow> drmModeConnector \<Rightarrow> drmModeEncoder
     \<Rightarrow> drmModeCrtc \<Rightarrow> event list \<Rightarrow> init_result" where
  "VideoInit_register k v dispdata connector encoder crtc t =
     (let dispdata1 = dispdata\<lparr>saved_crtc := Some crtc, dd_crtc_id := crtc_id encoder,
                               dd_mode := crtc_mode crtc\<rparr>;
          dispdata2 = (if mode_valid crtc = 0
                       then dispdata1\<lparr>dd_mode := modes connector ! 0\<rparr> else dispdata1);
          cur = \<lparr>format = SDL_PIXELFORMAT_ARGB8888,
                 dm_w = uint (hdisplay (dd_mode dispdata2)),
                 dm_h = uint (vdisplay (dd_mode dispdata2)),
                 refresh_rate = sint (vrefresh (dd_mode dispdata2))\<rparr>;
          disp = \<lparr>desktop_mode = cur, current_mode = cur, disp_driverdata = dispdata2\<rparr>
      in \<lparr>init_ret = 0, init_viddata = v, init_display = Some disp,
          init_trace = t @ [Ev_SDL_AddVideoDisplay disp]
            @ (if SDL_INPUT_LINUXEV k then [Ev_SDL_EVDEV_Init] else [])
            @ [Ev_KMSDRM_InitMouse]\<rparr>)"

text \<open>\<open>KMSDRM_VideoInit\<close>, in the order of the source. \<open>v\<close> is the driver data on entry.
  The device name is printed into 16 bytes, which holds every index up to 99, the range
  \<open>KMSDRM_CreateDevice\<close> accepts from its caller; the model opens the card by its index.\<close>

definition KMSDRM_VideoInit :: "kernel \<Rightarrow> SDL_VideoData \<Rightarrow> init_result" where
  "KMSDRM_VideoInit k v =
     (if \<not> SDL_calloc k A_DisplayData then
        \<lparr>init_ret = SDL_OutOfMemory, init_viddata = v, init_display = None,
         init_trace = [Ev_SDL_calloc A_DisplayData False]\<rparr>
      else if \<not> SDL_calloc k A_devname then
        VideoInit_cleanup SDL_OutOfMemory v calloc_DisplayData None None None
          [Ev_SDL_calloc A_DisplayData True, Ev_SDL_calloc A_devname False]
      else
        (let fd = c_open k (devindex v);
             v1 = v\<lparr>drm_fd := fd\<rparr>;
             t1 = [Ev_SDL_calloc A_DisplayData True, Ev_SDL_calloc A_devname True,
                   Ev_open (devindex v) fd, Ev_SDL_free A_devname]
         in if fd < 0 then
              VideoInit_cleanup SDL_SetError v1 calloc_DisplayData None None None
                (t1 @ [Ev_SDL_SetError ''Could not open /dev/dri/card%d.''])
            else
              (let v2 = v1\<lparr>gbm := gbm_create_device k fd\<rparr>;
                   t2 = t1 @ [Ev_gbm_create_device fd (gbm v2)]
               in if gbm v2 = None then
                    VideoInit_cleanup SDL_SetError v2 calloc_DisplayData None None None
                      (t2 @ [Ev_SDL_SetError ''Couldn't create gbm device.''])
                  else
                    (case drmModeGetResources k fd of
                       None \<Rightarrow>
                         VideoInit_cleanup SDL_SetError v2 calloc_DisplayData None None None
                           (t2 @ [Ev_drmModeGetResources fd None,
                                  Ev_SDL_SetError ''drmModeGetResources(%d) failed''])
                     | Some resources \<Rightarrow>
                         (let t3 = t2 @ [Ev_drmModeGetResources fd (Some resources)]
                          in case find_connector k fd (res_connectors resources) of
                               (None, tc) \<Rightarrow>
                                 VideoInit_cleanup SDL_SetError v2 calloc_DisplayData
                                   (Some resources) None None
                                   (t3 @ tc @ [Ev_SDL_SetError
                                                 ''No currently active connector found.''])
                             | (Some connector, tc) \<Rightarrow>
                                 (let dispdata = calloc_DisplayData
                                        \<lparr>conn_id := connector_id connector\<rparr>
                                  in case find_encoder k fd connector
                                            (res_encoders resources) of
                                       (None, te) \<Rightarrow>
                                         VideoInit_cleanup SDL_SetError v2 dispdata
                                           (Some resources) (Some connector) None
                                           (t3 @ tc @ te @ [Ev_SDL_SetError
                                                 ''No connected encoder found.''])
                                     | (Some encoder, te) \<Rightarrow>
                                         (case select_crtc k fd encoder
                                                 (res_crtcs resources) of
                                            (encoder1, None, tk) \<Rightarrow>
                                              VideoInit_cleanup SDL_SetError v2 dispdata
                                                (Some resources) (Some connector)
                                                (Some encoder1)
                                                (t3 @ tc @ te @ tk
                                                   @ [Ev_SDL_SetError ''No CRTC found.''])
                                          | (encoder1, Some crtc, tk) \<Rightarrow>
                                              VideoInit_register k v2 dispdata connector
                                                encoder1 crtc (t3 @ tc @ te @ tk))))))))"

text \<open>\<open>KMSDRM_GetDisplayModes\<close> adds one mode to the display, its current mode.\<close>

definition KMSDRM_GetDisplayModes :: "SDL_VideoDisplay \<Rightarrow> SDL_DisplayMode list" where
  "KMSDRM_GetDisplayModes display = [current_mode display]"

section \<open>Driver quit\<close>

text \<open>\<open>KMSDRM_VideoQuit\<close>. \<open>driver_loaded\<close> is \<open>_this->gl_config.driver_loaded\<close>, \<open>dispdata\<close>
  the driver data of display 0. The function returns nothing; the model returns the two
  structures it writes and its trace.\<close>

definition KMSDRM_VideoQuit ::
  "kernel \<Rightarrow> bool \<Rightarrow> SDL_VideoData \<Rightarrow> SDL_DisplayData
     \<Rightarrow> SDL_VideoData \<times> SDL_DisplayData \<times> event list" where
  "KMSDRM_VideoQuit k driver_loaded v dispdata =
     (let t_gl = (if driver_loaded then [Ev_SDL_GL_UnloadLibrary] else []);
          t_crtc =
            (case saved_crtc dispdata of
               None \<Rightarrow> []
             | Some crtc \<Rightarrow>
                 (if 0 \<le> drm_fd v \<and> 0 < conn_id dispdata then
                    Ev_drmModeSetCrtc (drm_fd v) (crtc_crtc_id crtc) (buffer_id crtc)
                      (crtc_x crtc) (crtc_y crtc) [conn_id dispdata] (crtc_mode crtc)
                    # (if drmModeSetCrtc k (drm_fd v) (crtc_crtc_id crtc) (buffer_id crtc)
                            (crtc_x crtc) (crtc_y crtc) [conn_id dispdata] (crtc_mode crtc)
                          \<noteq> 0
                       then [Ev_SDL_Log ''Could not restore original CRTC mode''] else [])
                  else [])
                 @ [Ev_drmModeFreeCrtc (crtc_crtc_id crtc)]);
          t_gbm = (case gbm v of Some g \<Rightarrow> [Ev_gbm_device_destroy g] | None \<Rightarrow> []);
          t_fd = (if 0 \<le> drm_fd v then [Ev_close (drm_fd v)] else []);
          t_ev = (if SDL_INPUT_LINUXEV k then [Ev_SDL_EVDEV_Quit] else [])
      in (v\<lparr>gbm := None, drm_fd := (if 0 \<le> drm_fd v then - 1 else drm_fd v)\<rparr>,
          dispdata\<lparr>saved_crtc := None\<rparr>,
          t_gl @ t_crtc @ t_gbm @ t_fd @ t_ev))"

section \<open>Window destruction\<close>

text \<open>\<open>KMSDRM_DestroyWindow\<close>. It ignores what \<open>KMSDRM_WaitPageFlip\<close> returns; the wait
  writes the window data in place, so the rest of the function reads the window data the
  wait left. When the wait does not return, neither does the destruction.\<close>

definition KMSDRM_DestroyWindow ::
  "kernel \<Rightarrow> SDL_VideoData \<Rightarrow> SDL_Window \<Rightarrow> poll_return list
     \<Rightarrow> (SDL_Window \<times> event list) option" where
  "KMSDRM_DestroyWindow k v window script =
     (case win_driverdata window of
        None \<Rightarrow> Some (window, [])
      | Some windata0 \<Rightarrow>
          (case KMSDRM_WaitPageFlip v windata0 (- 1) script of
             None \<Rightarrow> None
           | Some (b, windata, t_wait) \<Rightarrow>
               Some (window\<lparr>win_driverdata := None\<rparr>,
                     t_wait
                     @ (case curr_bo windata of
                          Some bo \<Rightarrow> [Ev_gbm_surface_release_buffer (gs windata) bo]
                        | None \<Rightarrow> [])
                     @ (case next_bo windata of
                          Some bo \<Rightarrow> [Ev_gbm_surface_release_buffer (gs windata) bo]
                        | None \<Rightarrow> [])
                     @ (if SDL_VIDEO_OPENGL_EGL k then
                          Ev_SDL_EGL_MakeCurrent_none
                          # (case egl_surface windata of
                               Some s \<Rightarrow> [Ev_SDL_EGL_DestroySurface s] | None \<Rightarrow> [])
                        else [])
                     @ (case gs windata of
                          Some g \<Rightarrow> [Ev_gbm_surface_destroy g] | None \<Rightarrow> [])
                     @ [Ev_SDL_free A_WindowData])))"

section \<open>Reading traces\<close>

text \<open>The device indices a trace opened, in order.\<close>

fun opened_index :: "event \<Rightarrow> int option" where
  "opened_index (Ev_open n fd) = Some n"
| "opened_index _ = None"

definition probed :: "event list \<Rightarrow> int list" where
  "probed t = List.map_filter opened_index t"

fun is_SetCrtc :: "event \<Rightarrow> bool" where
  "is_SetCrtc (Ev_drmModeSetCrtc fd c b x y cs m) = True"
| "is_SetCrtc _ = False"

fun is_FreeCrtc :: "event \<Rightarrow> bool" where
  "is_FreeCrtc (Ev_drmModeFreeCrtc c) = True"
| "is_FreeCrtc _ = False"

fun is_release_buffer :: "event \<Rightarrow> bool" where
  "is_release_buffer (Ev_gbm_surface_release_buffer g bo) = True"
| "is_release_buffer _ = False"

fun is_poll :: "event \<Rightarrow> bool" where
  "is_poll (Ev_poll fd timeout) = True"
| "is_poll _ = False"

text \<open>The kernel query objects among the resources: the resource list, connectors and
  encoders.\<close>

fun is_query_object :: "resource \<Rightarrow> bool" where
  "is_query_object (R_resources r) = True"
| "is_query_object (R_connector c) = True"
| "is_query_object (R_encoder e) = True"
| "is_query_object _ = False"

text \<open>A return of \<open>poll\<close> that lets the loop of \<open>KMSDRM_WaitPageFlip\<close> reach
  \<open>drmHandleEvent\<close>: no error, no hangup, input ready.\<close>

definition readable :: "poll_return \<Rightarrow> bool" where
  "readable p \<longleftrightarrow>
     \<not> poll_ret p < 0 \<and> revents p AND (POLLHUP OR POLLERR) = 0 \<and> revents p AND POLLIN \<noteq> 0"

section \<open>A concrete machine\<close>

text \<open>
  Two cards. \<open>card0\<close> opens as descriptor 3 and has no connector, encoder or CRTC.
  \<open>card1\<close> opens as descriptor 4: connector 20 is disconnected, connector 21 is connected
  with three modes and is driven by encoder 7, whose CRTC 10 scans out 1280x720.
\<close>

definition mode_1080 :: drmModeModeInfo where
  "mode_1080 = \<lparr>clock = 148500, hdisplay = 1920, vdisplay = 1080, vrefresh = 60\<rparr>"

definition mode_720 :: drmModeModeInfo where
  "mode_720 = \<lparr>clock = 74250, hdisplay = 1280, vdisplay = 720, vrefresh = 60\<rparr>"

definition mode_480 :: drmModeModeInfo where
  "mode_480 = \<lparr>clock = 25175, hdisplay = 640, vdisplay = 480, vrefresh = 60\<rparr>"

definition connector_A :: drmModeConnector where
  "connector_A = \<lparr>connector_id = 20, encoder_id = 0, connection = DRM_MODE_DISCONNECTED,
                  modes = [], conn_encoders = [7]\<rparr>"

definition connector_B :: drmModeConnector where
  "connector_B = \<lparr>connector_id = 21, encoder_id = 7, connection = DRM_MODE_CONNECTED,
                  modes = [mode_1080, mode_720, mode_480], conn_encoders = [7]\<rparr>"

definition encoder_7 :: drmModeEncoder where
  "encoder_7 = \<lparr>enc_encoder_id = 7, crtc_id = 10, possible_crtcs = 3\<rparr>"

definition crtc_10 :: drmModeCrtc where
  "crtc_10 = \<lparr>crtc_crtc_id = 10, buffer_id = 42, crtc_x = 0, crtc_y = 0,
              crtc_width = 1280, crtc_height = 720, mode_valid = 1, crtc_mode = mode_720\<rparr>"

definition resources_0 :: drmModeRes where
  "resources_0 = \<lparr>res_crtcs = [], res_connectors = [], res_encoders = []\<rparr>"

definition resources_1 :: drmModeRes where
  "resources_1 = \<lparr>res_crtcs = [10, 11], res_connectors = [20, 21], res_encoders = [7]\<rparr>"

definition kernel_ex :: kernel where
  "kernel_ex =
     \<lparr>k_open = (\<lambda>n. if n = 0 then Some 3 else if n = 1 then Some 4 else None),
      dri_is_dir = True,
      dri_access = True,
      dri_dir = Some [''.'', ''..'', ''card0'', ''card1'', ''renderD128''],
      SDL_KMSDRM_LoadSymbols = True,
      SDL_calloc = (\<lambda>a. True),
      gbm_create_device = (\<lambda>fd. Some 1),
      drmModeGetResources =
        (\<lambda>fd. if fd = 3 then Some resources_0 else if fd = 4 then Some resources_1 else None),
      drmModeGetConnector =
        (\<lambda>fd c. if fd = 4 \<and> c = 20 then Some connector_A
                 else if fd = 4 \<and> c = 21 then Some connector_B else None),
      drmModeGetEncoder = (\<lambda>fd e. if fd = 4 \<and> e = 7 then Some encoder_7 else None),
      drmModeGetCrtc = (\<lambda>fd c. if fd = 4 \<and> c = 10 then Some crtc_10 else None),
      drmModeSetCrtc = (\<lambda>fd c b x y cs m. 0),
      drmModeAddFB = (\<lambda>fd w h depth bpp stride handle. (0, 77)),
      SDL_INPUT_LINUXEV = True,
      SDL_VIDEO_OPENGL_EGL = True\<rparr>"

text \<open>The driver data \<open>KMSDRM_CreateDevice\<close> makes for \<open>card1\<close>.\<close>

definition viddata_1 :: SDL_VideoData where
  "viddata_1 = \<lparr>devindex = 1, drm_fd = - 1, gbm = None\<rparr>"

text \<open>The same card with a second encoder, 5, listed before encoder 7. Connector 21
  supports both and is still driven by encoder 7. Encoder 5 has no CRTC of its own and can
  use CRTC 11, whose mode is not valid.\<close>

definition connector_B2 :: drmModeConnector where
  "connector_B2 = connector_B\<lparr>conn_encoders := [5, 7]\<rparr>"

definition encoder_5 :: drmModeEncoder where
  "encoder_5 = \<lparr>enc_encoder_id = 5, crtc_id = 0, possible_crtcs = 2\<rparr>"

definition crtc_11 :: drmModeCrtc where
  "crtc_11 = \<lparr>crtc_crtc_id = 11, buffer_id = 0, crtc_x = 0, crtc_y = 0,
              crtc_width = 0, crtc_height = 0, mode_valid = 0, crtc_mode = mode_480\<rparr>"

definition resources_2 :: drmModeRes where
  "resources_2 = \<lparr>res_crtcs = [10, 11], res_connectors = [20, 21], res_encoders = [5, 7]\<rparr>"

definition kernel_two_encoders :: kernel where
  "kernel_two_encoders =
     kernel_ex
       \<lparr>drmModeGetResources := (\<lambda>fd. if fd = 4 then Some resources_2 else None),
        drmModeGetConnector :=
          (\<lambda>fd c. if fd = 4 \<and> c = 20 then Some connector_A
                   else if fd = 4 \<and> c = 21 then Some connector_B2 else None),
        drmModeGetEncoder :=
          (\<lambda>fd e. if fd = 4 \<and> e = 5 then Some encoder_5
                   else if fd = 4 \<and> e = 7 then Some encoder_7 else None),
        drmModeGetCrtc :=
          (\<lambda>fd c. if fd = 4 \<and> c = 10 then Some crtc_10
                   else if fd = 4 \<and> c = 11 then Some crtc_11 else None)\<rparr>"

text \<open>What negotiation on this card leaves in the display descriptor.\<close>

definition dispdata_two_encoders :: SDL_DisplayData where
  "dispdata_two_encoders =
     \<lparr>conn_id = 21, dd_crtc_id = 11, dd_mode = mode_1080, saved_crtc = Some crtc_11\<rparr>"

text \<open>The first card again, with a kernel that returns no resource list.\<close>

definition kernel_no_resources :: kernel where
  "kernel_no_resources = kernel_ex\<lparr>drmModeGetResources := (\<lambda>fd. None)\<rparr>"

text \<open>The display that negotiation registers on \<open>kernel_ex\<close>, and its descriptor.\<close>

definition dispdata_ex :: SDL_DisplayData where
  "dispdata_ex =
     \<lparr>conn_id = 21, dd_crtc_id = 10, dd_mode = mode_720, saved_crtc = Some crtc_10\<rparr>"

definition display_ex :: SDL_VideoDisplay where
  "display_ex =
     \<lparr>desktop_mode = \<lparr>format = SDL_PIXELFORMAT_ARGB8888, dm_w = 1280, dm_h = 720,
                       refresh_rate = 60\<rparr>,
      current_mode = \<lparr>format = SDL_PIXELFORMAT_ARGB8888, dm_w = 1280, dm_h = 720,
                       refresh_rate = 60\<rparr>,
      disp_driverdata = dispdata_ex\<rparr>"

text \<open>A kernel that refuses to set a CRTC.\<close>

definition kernel_restore_fails :: kernel where
  "kernel_restore_fails = kernel_ex\<lparr>drmModeSetCrtc := (\<lambda>fd c b x y cs m. - 1)\<rparr>"

text \<open>A window with a flip in flight, and three returns of \<open>poll\<close>: a vblank event, the
  flip completion, and a timeout.\<close>

definition windata_ex :: SDL_WindowData where
  "windata_ex = \<lparr>gs = Some 1, curr_bo = Some 10, next_bo = Some 11,
                 waiting_for_flip = True, double_buffer = False, egl_surface = Some 5\<rparr>"

definition viddata_open :: SDL_VideoData where
  "viddata_open = \<lparr>devindex = 1, drm_fd = 4, gbm = Some 1\<rparr>"

definition poll_vblank :: poll_return where
  "poll_vblank = \<lparr>poll_ret = 1, revents = POLLIN, drm_events = [DRM_EVENT_VBLANK]\<rparr>"

definition poll_flip :: poll_return where
  "poll_flip = \<lparr>poll_ret = 1, revents = POLLIN, drm_events = [DRM_EVENT_FLIP_COMPLETE]\<rparr>"

definition poll_timeout :: poll_return where
  "poll_timeout = \<lparr>poll_ret = 0, revents = 0, drm_events = []\<rparr>"

definition window_ex :: SDL_Window where
  "window_ex = \<lparr>win_driverdata = Some windata_ex\<rparr>"

text \<open>A buffer object that has not been presented yet.\<close>

definition bo_ex :: gbm_bo where
  "bo_ex = \<lparr>bo_width = 1280, bo_height = 720, bo_stride = 5120, bo_handle = 9,
            user_data = None\<rparr>"

section \<open>Device enumeration: the probe and the scan\<close>

lemma probed_append: "probed (t @ t') = probed t @ probed t'"
  by (induction t) (simp_all add: probed_def split: option.splits)

lemma probed_check_modestting: "probed (snd (check_modestting k n)) = [n]"
  by (simp add: check_modestting_def probed_def Let_def split: option.splits)

lemma outstanding_check_modestting: "outstanding (snd (check_modestting k n)) = []"
  by (simp add: check_modestting_def outstanding_def track_def Let_def split: option.splits)

lemma get_driindex_loop_scan:
  "get_driindex_loop k devcount i = (r, t) \<Longrightarrow>
     (i \<le> r \<and> r < devcount \<and> fst (check_modestting k r)
        \<and> (\<forall>j. i \<le> j \<and> j < r \<longrightarrow> \<not> fst (check_modestting k j))
        \<and> probed t = [i..r])
   \<or> (r = - ENOENT \<and> (\<forall>j. i \<le> j \<and> j < devcount \<longrightarrow> \<not> fst (check_modestting k j))
        \<and> probed t = [i..devcount - 1])"
proof (induction k devcount i arbitrary: r t rule: get_driindex_loop.induct)
  case (1 k devcount i)
  show ?case
  proof (cases "i < devcount")
    case False
    with "1.prems" have "r = - ENOENT" "t = []" by simp_all
    moreover have "[i..devcount - 1] = []" using False by simp
    moreover have "\<forall>j. i \<le> j \<and> j < devcount \<longrightarrow> \<not> fst (check_modestting k j)"
      using False by auto
    ultimately show ?thesis by (simp add: probed_def)
  next
    case True
    obtain a ta where c: "check_modestting k i = (a, ta)" by (cases "check_modestting k i")
    have pa: "probed ta = [i]" using probed_check_modestting [of k i] c by simp
    show ?thesis
    proof (cases a)
      case True
      with \<open>i < devcount\<close> c "1.prems" have "r = i" "t = ta" by simp_all
      with True c pa \<open>i < devcount\<close> show ?thesis by auto
    next
      case False
      obtain r' t' where rec: "get_driindex_loop k devcount (i + 1) = (r', t')"
        by (cases "get_driindex_loop k devcount (i + 1)")
      from False \<open>i < devcount\<close> c rec "1.prems" have eq: "r = r'" "t = ta @ t'" by simp_all
      from False c have ni: "\<not> fst (check_modestting k i)" by simp
      have step: "\<And>j. i \<le> j \<Longrightarrow> j \<noteq> i \<Longrightarrow> i + 1 \<le> j" by simp
      from False have af: "a = False" by simp
      from "1.IH" [OF \<open>i < devcount\<close> c [symmetric] af rec]
      show ?thesis
      proof
        assume h: "i + 1 \<le> r' \<and> r' < devcount \<and> fst (check_modestting k r')
          \<and> (\<forall>j. i + 1 \<le> j \<and> j < r' \<longrightarrow> \<not> fst (check_modestting k j)) \<and> probed t' = [i + 1..r']"
        then have "\<forall>j. i \<le> j \<and> j < r' \<longrightarrow> \<not> fst (check_modestting k j)"
          using ni by (metis step)
        moreover have "probed t = [i..r']"
          using h pa eq by (simp add: probed_append upto_rec1 [of i r'])
        ultimately show ?thesis using h eq by simp
      next
        assume h: "r' = - ENOENT \<and> (\<forall>j. i + 1 \<le> j \<and> j < devcount \<longrightarrow> \<not> fst (check_modestting k j))
          \<and> probed t' = [i + 1..devcount - 1]"
        then have "\<forall>j. i \<le> j \<and> j < devcount \<longrightarrow> \<not> fst (check_modestting k j)"
          using ni by (metis step)
        moreover have "probed t = [i..devcount - 1]"
          using h pa eq \<open>i < devcount\<close> by (simp add: probed_append upto_rec1 [of i "devcount - 1"])
        ultimately show ?thesis using h eq by simp
      qed
    qed
  qed
qed

lemma count_cards_ge: "d \<le> count_cards names d"
proof (induction names arbitrary: d)
  case Nil
  show ?case by simp
next
  case (Cons a names)
  have "d \<le> d + 1" by simp
  also have "\<dots> \<le> count_cards names (d + 1)" by (rule Cons.IH)
  finally have "d \<le> count_cards names (d + 1)" .
  with Cons.IH [of d] show ?case by simp
qed

lemma get_dricount_nonneg: "0 \<le> get_dricount k"
  using count_cards_ge [of 0] by (simp add: get_dricount_def split: option.splits)

text \<open>
  Claim C5. For every environment, \<open>get_driindex\<close> probes the indices
  \<open>0, 1, ...\<close> in increasing order and returns the lowest index below \<open>get_dricount\<close>
  that \<open>check_modestting\<close> accepts, having probed exactly the indices up to it; when the
  probe accepts none of the indices below \<open>get_dricount\<close>, all of them have been probed
  and the result is \<open>-ENOENT\<close>, a negative number.
\<close>


theorem get_driindex_lowest_probe:
  "(case get_driindex k of
      (r, t) \<Rightarrow>
        (0 \<le> r \<and> r < get_dricount k \<and> fst (check_modestting k r)
           \<and> (\<forall>j. 0 \<le> j \<and> j < r \<longrightarrow> \<not> fst (check_modestting k j))
           \<and> probed t = [0..r])
      \<or> (r = - ENOENT \<and> r < 0
           \<and> (\<forall>j. 0 \<le> j \<and> j < get_dricount k \<longrightarrow> \<not> fst (check_modestting k j))
           \<and> probed t = [0..get_dricount k - 1]))"
proof -
  obtain r t where g: "get_driindex k = (r, t)" by (cases "get_driindex k")
  then have "get_driindex_loop k (get_dricount k) 0 = (r, t)" by (simp add: get_driindex_def)
  from get_driindex_loop_scan [OF this] show ?thesis
    using g by (auto simp: ENOENT_def)
qed

lemma get_dricount_ex: "get_dricount kernel_ex = 2"
  by (simp add: get_dricount_def kernel_ex_def)

lemma check_ex_0: "check_modestting kernel_ex 0 = (False,
   [Ev_open 0 3, Ev_LoadSymbols True, Ev_drmModeGetResources 3 (Some resources_0),
    Ev_drmModeFreeResources resources_0, Ev_UnloadSymbols, Ev_close 3])"
  by (simp add: check_modestting_def kernel_ex_def c_open_def count_connectors_def resources_0_def)

lemma check_ex_1: "check_modestting kernel_ex 1 = (True,
   [Ev_open 1 4, Ev_LoadSymbols True, Ev_drmModeGetResources 4 (Some resources_1),
    Ev_drmModeFreeResources resources_1, Ev_UnloadSymbols, Ev_close 4])"
  by (simp add: check_modestting_def kernel_ex_def c_open_def count_connectors_def
      count_encoders_def count_crtcs_def resources_1_def)

lemma get_driindex_ex: "get_driindex kernel_ex = (1, snd (check_modestting kernel_ex 0) @ snd (check_modestting kernel_ex 1))"
  by (simp add: get_driindex_def get_dricount_ex check_ex_0 check_ex_1)

theorem get_driindex_lowest_probe_witness:
  "fst (get_driindex kernel_ex) = 1 \<and> fst (check_modestting kernel_ex 1)
     \<and> \<not> fst (check_modestting kernel_ex 0) \<and> probed (snd (get_driindex kernel_ex)) = [0, 1]"
  using get_driindex_lowest_probe [of kernel_ex]
  by (simp add: get_driindex_def get_dricount_ex check_ex_0 check_ex_1 probed_def)

text \<open>
  Claim C6. \<open>check_modestting\<close> reports the device available exactly when the open
  succeeded and the resource query it made reported at least one connector, one encoder
  and one CRTC; it makes that query exactly when the libdrm symbols load, and the query
  reports what the kernel returns for the descriptor. Whenever the open succeeded, nothing
  is outstanding when the probe returns: the trace starts with the open and ends with the
  close of the descriptor, and a resource list that was obtained has been freed. When the
  open fails, nothing else is called.
\<close>


theorem check_modestting_probe:
  "(fst (check_modestting k n) \<longleftrightarrow>
      (\<exists>fd r. k_open k n = Some fd
         \<and> Ev_drmModeGetResources (int fd) (Some r) \<in> set (snd (check_modestting k n))
         \<and> 0 < count_connectors r \<and> 0 < count_encoders r \<and> 0 < count_crtcs r))
   \<and> (\<forall>fd r. k_open k n = Some fd \<longrightarrow>
         (Ev_drmModeGetResources (int fd) (Some r) \<in> set (snd (check_modestting k n)) \<longleftrightarrow>
            SDL_KMSDRM_LoadSymbols k \<and> drmModeGetResources k (int fd) = Some r))
   \<and> (\<forall>fd. k_open k n = Some fd \<longrightarrow>
         outstanding (snd (check_modestting k n)) = []
         \<and> hd (snd (check_modestting k n)) = Ev_open n (int fd)
         \<and> last (snd (check_modestting k n)) = Ev_close (int fd)
         \<and> (\<forall>r. Ev_drmModeGetResources (int fd) (Some r) \<in> set (snd (check_modestting k n))
               \<longrightarrow> Ev_drmModeFreeResources r \<in> set (snd (check_modestting k n))))
   \<and> (k_open k n = None \<longrightarrow> check_modestting k n = (False, [Ev_open n (- 1)]))"
proof -
  have a: "fst (check_modestting k n) \<longleftrightarrow>
      (\<exists>fd r. k_open k n = Some fd
         \<and> Ev_drmModeGetResources (int fd) (Some r) \<in> set (snd (check_modestting k n))
         \<and> 0 < count_connectors r \<and> 0 < count_encoders r \<and> 0 < count_crtcs r)"
    by (auto simp add: check_modestting_def c_open_def Let_def split: option.splits)
  have b: "\<forall>fd r. k_open k n = Some fd \<longrightarrow>
         (Ev_drmModeGetResources (int fd) (Some r) \<in> set (snd (check_modestting k n)) \<longleftrightarrow>
            SDL_KMSDRM_LoadSymbols k \<and> drmModeGetResources k (int fd) = Some r)"
    by (auto simp add: check_modestting_def c_open_def Let_def split: option.splits)
  have c: "\<forall>fd. k_open k n = Some fd \<longrightarrow>
         outstanding (snd (check_modestting k n)) = []
         \<and> hd (snd (check_modestting k n)) = Ev_open n (int fd)
         \<and> last (snd (check_modestting k n)) = Ev_close (int fd)
         \<and> (\<forall>r. Ev_drmModeGetResources (int fd) (Some r) \<in> set (snd (check_modestting k n))
               \<longrightarrow> Ev_drmModeFreeResources r \<in> set (snd (check_modestting k n)))"
    by (auto simp add: check_modestting_def c_open_def Let_def outstanding_def track_def
        split: option.splits)
  have d: "k_open k n = None \<longrightarrow> check_modestting k n = (False, [Ev_open n (- 1)])"
    by (simp add: check_modestting_def c_open_def)
  from a b c d show ?thesis by blast
qed

theorem check_modestting_probe_witness:
  "fst (check_modestting kernel_ex 1) \<and> \<not> fst (check_modestting kernel_ex 0)
     \<and> k_open kernel_ex 1 = Some 4 \<and> k_open kernel_ex 0 = Some 3
     \<and> outstanding (snd (check_modestting kernel_ex 1)) = []
     \<and> last (snd (check_modestting kernel_ex 1)) = Ev_close 4
     \<and> outstanding (snd (check_modestting kernel_ex 0)) = []
     \<and> last (snd (check_modestting kernel_ex 0)) = Ev_close 3
     \<and> Ev_drmModeFreeResources resources_0 \<in> set (snd (check_modestting kernel_ex 0))"
proof -
  have o: "k_open kernel_ex 1 = Some 4" "k_open kernel_ex 0 = Some 3"
    by (simp_all add: kernel_ex_def)
  show ?thesis
    using check_modestting_probe [of kernel_ex 1] check_modestting_probe [of kernel_ex 0] o
    by (simp add: check_ex_0 check_ex_1)
qed

text \<open>
  Claim C10. When the requested index is 0 or greater than 99, \<open>KMSDRM_CreateDevice\<close>
  starts with the scan of \<open>get_driindex\<close> and uses its result: a created device carries
  the index the scan returned (not the requested one) and a closed descriptor; the device
  is created whenever the scan succeeds and the symbols and both allocations are
  available; and when the scan finds no device, creation fails with an error set.
\<close>


theorem CreateDevice_autoselect:
  assumes "devindex0 = 0 \<or> 99 < devindex0"
  shows "(fst (get_driindex k) < 0 \<longrightarrow>
            KMSDRM_CreateDevice k devindex0 =
              (None, snd (get_driindex k)
                       @ [Ev_SDL_SetError ''devindex must be between 0 and 99'']))
       \<and> (\<forall>dev. fst (KMSDRM_CreateDevice k devindex0) = Some dev \<longrightarrow>
            devindex (driverdata dev) = fst (get_driindex k)
            \<and> 0 \<le> devindex (driverdata dev) \<and> drm_fd (driverdata dev) = - 1)
       \<and> (0 \<le> fst (get_driindex k) \<and> SDL_KMSDRM_LoadSymbols k
            \<and> SDL_calloc k A_VideoDevice \<and> SDL_calloc k A_VideoData \<longrightarrow>
            fst (KMSDRM_CreateDevice k devindex0) =
              Some \<lparr>driverdata =
                      \<lparr>devindex = fst (get_driindex k), drm_fd = - 1, gbm = None\<rparr>\<rparr>)
       \<and> take (length (snd (get_driindex k))) (snd (KMSDRM_CreateDevice k devindex0))
            = snd (get_driindex k)"
  using assms
  by (cases "get_driindex k") (auto simp add: KMSDRM_CreateDevice_def)


lemma get_dricount_empty: "get_dricount (kernel_ex\<lparr>dri_dir := Some []\<rparr>) = 0"
  by (simp add: get_dricount_def kernel_ex_def)

theorem CreateDevice_autoselect_witness:
  "fst (KMSDRM_CreateDevice kernel_ex 0) =
     Some \<lparr>driverdata = \<lparr>devindex = 1, drm_fd = - 1, gbm = None\<rparr>\<rparr>
   \<and> fst (KMSDRM_CreateDevice kernel_ex 100) =
     Some \<lparr>driverdata = \<lparr>devindex = 1, drm_fd = - 1, gbm = None\<rparr>\<rparr>
   \<and> fst (KMSDRM_CreateDevice (kernel_ex\<lparr>dri_dir := Some []\<rparr>) 0) = None"
proof -
  have g: "fst (get_driindex kernel_ex) = 1" by (simp add: get_driindex_ex)
  have l: "SDL_KMSDRM_LoadSymbols kernel_ex" "SDL_calloc kernel_ex A_VideoDevice"
    "SDL_calloc kernel_ex A_VideoData" by (simp_all add: kernel_ex_def)
  have e: "fst (get_driindex (kernel_ex\<lparr>dri_dir := Some []\<rparr>)) < 0"
    by (simp add: get_driindex_def get_dricount_empty ENOENT_def)
  have a0: "(0::int) = 0 \<or> 99 < (0::int)" and a100: "(100::int) = 0 \<or> 99 < (100::int)"
    by simp_all
  have "fst (KMSDRM_CreateDevice kernel_ex 0) =
     Some \<lparr>driverdata = \<lparr>devindex = 1, drm_fd = - 1, gbm = None\<rparr>\<rparr>"
    using CreateDevice_autoselect [OF a0, of kernel_ex, THEN conjunct2, THEN conjunct2,
        THEN conjunct1] g l by simp
  moreover have "fst (KMSDRM_CreateDevice kernel_ex 100) =
     Some \<lparr>driverdata = \<lparr>devindex = 1, drm_fd = - 1, gbm = None\<rparr>\<rparr>"
    using CreateDevice_autoselect [OF a100, of kernel_ex, THEN conjunct2, THEN conjunct2,
        THEN conjunct1] g l by simp
  moreover have "fst (KMSDRM_CreateDevice (kernel_ex\<lparr>dri_dir := Some []\<rparr>) 0) = None"
    using CreateDevice_autoselect [OF a0, of "kernel_ex\<lparr>dri_dir := Some []\<rparr>",
        THEN conjunct1] e by simp
  ultimately show ?thesis by simp
qed

section \<open>Display negotiation: what a run acquires and releases\<close>

lemma track_find_connector:
  "find_connector k fd cs = (r, t) \<Longrightarrow>
     \<forall>live. foldl track live t =
       (case r of Some c \<Rightarrow> R_connector (connector_id c) # live | None \<Rightarrow> live)"
proof (induction cs arbitrary: r t)
  case Nil
  then show ?case by simp
next
  case (Cons cid cs)
  obtain r' t' where rec: "find_connector k fd cs = (r', t')"
    by (cases "find_connector k fd cs")
  from Cons.IH [OF rec] Cons.prems rec show ?case
    by (auto simp add: track_def split: option.splits if_splits)
qed

lemma track_find_encoder:
  "find_encoder k fd connector es = (r, t) \<Longrightarrow>
     \<forall>live. foldl track live t =
       (case r of Some e \<Rightarrow> R_encoder (enc_encoder_id e) # live | None \<Rightarrow> live)"
proof (induction es arbitrary: r t)
  case Nil
  then show ?case by simp
next
  case (Cons eid es)
  obtain r' t' where rec: "find_encoder k fd connector es = (r', t')"
    by (cases "find_encoder k fd connector es")
  from Cons.IH [OF rec] Cons.prems rec show ?case
    by (auto simp add: track_def Let_def split: option.splits if_splits)
qed

lemma pick_crtc_props:
  "pick_crtc k fd e cs i = (e', c, t) \<Longrightarrow>
     enc_encoder_id e' = enc_encoder_id e
     \<and> (\<forall>crtc. c = Some crtc \<longrightarrow> drmModeGetCrtc k fd (crtc_id e') = Some crtc)
     \<and> (\<forall>live. foldl track live t =
          (case c of Some crtc \<Rightarrow> R_crtc (crtc_crtc_id crtc) # live | None \<Rightarrow> live))"
proof (induction cs arbitrary: i)
  case Nil
  then show ?case by auto
next
  case (Cons x cs)
  then show ?case
    by (cases "possible_crtcs e AND push_bit i 1 \<noteq> 0")
       (auto simp add: track_def split: option.splits)
qed

lemma select_crtc_props:
  assumes "select_crtc k fd e cs = (e', c, t)"
  shows "enc_encoder_id e' = enc_encoder_id e
     \<and> (\<forall>crtc. c = Some crtc \<longrightarrow> drmModeGetCrtc k fd (crtc_id e') = Some crtc)
     \<and> (\<forall>live. foldl track live t =
          (case c of Some crtc \<Rightarrow> R_crtc (crtc_crtc_id crtc) # live | None \<Rightarrow> live))
     \<and> (\<forall>crtc. drmModeGetCrtc k fd (crtc_id e) = Some crtc \<longrightarrow> e' = e \<and> c = Some crtc)"
proof (cases "drmModeGetCrtc k fd (crtc_id e)")
  case (Some crtc)
  with assms have eq: "e' = e" "c = Some crtc"
    "t = [Ev_drmModeGetCrtc (crtc_id e) (Some (crtc_crtc_id crtc))]"
    by (auto simp add: select_crtc_def)
  with Some show ?thesis by (simp add: track_def)
next
  case None
  obtain e2 c2 t2 where p: "pick_crtc k fd e cs 0 = (e2, c2, t2)"
    by (cases "pick_crtc k fd e cs 0")
  from None assms p have eq: "e' = e2" "c = c2" "t = Ev_drmModeGetCrtc (crtc_id e) None # t2"
    by (simp_all add: select_crtc_def)
  from pick_crtc_props [OF p] eq None show ?thesis by (simp add: track_def)
qed

text \<open>The nine ways through \<open>KMSDRM_VideoInit\<close>.\<close>

lemma VideoInit_cases [case_names no_dispdata no_devname no_open no_gbm no_resources
    no_connector no_encoder no_crtc registered]:
  fixes k v
  defines "R \<equiv> KMSDRM_VideoInit k v"
  defines "ta \<equiv> [Ev_SDL_calloc A_DisplayData True, Ev_SDL_calloc A_devname True]"
  obtains
    "R = \<lparr>init_ret = SDL_OutOfMemory, init_viddata = v, init_display = None,
          init_trace = [Ev_SDL_calloc A_DisplayData False]\<rparr>"
  | "R = VideoInit_cleanup SDL_OutOfMemory v calloc_DisplayData None None None
           [Ev_SDL_calloc A_DisplayData True, Ev_SDL_calloc A_devname False]"
  | "k_open k (devindex v) = None"
    "R = VideoInit_cleanup SDL_SetError (v\<lparr>drm_fd := - 1\<rparr>) calloc_DisplayData None None None
           (ta @ [Ev_open (devindex v) (- 1), Ev_SDL_free A_devname,
                  Ev_SDL_SetError ''Could not open /dev/dri/card%d.''])"
  | fd where "k_open k (devindex v) = Some fd"
    "R = VideoInit_cleanup SDL_SetError (v\<lparr>drm_fd := int fd, gbm := None\<rparr>)
           calloc_DisplayData None None None
           (ta @ [Ev_open (devindex v) (int fd), Ev_SDL_free A_devname,
                  Ev_gbm_create_device (int fd) None,
                  Ev_SDL_SetError ''Couldn't create gbm device.''])"
  | fd g where "k_open k (devindex v) = Some fd"
    "R = VideoInit_cleanup SDL_SetError (v\<lparr>drm_fd := int fd, gbm := Some g\<rparr>)
           calloc_DisplayData None None None
           (ta @ [Ev_open (devindex v) (int fd), Ev_SDL_free A_devname,
                  Ev_gbm_create_device (int fd) (Some g),
                  Ev_drmModeGetResources (int fd) None,
                  Ev_SDL_SetError ''drmModeGetResources(%d) failed''])"
  | fd g resources tc where "k_open k (devindex v) = Some fd"
    "find_connector k (int fd) (res_connectors resources) = (None, tc)"
    "R = VideoInit_cleanup SDL_SetError (v\<lparr>drm_fd := int fd, gbm := Some g\<rparr>)
           calloc_DisplayData (Some resources) None None
           (ta @ [Ev_open (devindex v) (int fd), Ev_SDL_free A_devname,
                  Ev_gbm_create_device (int fd) (Some g),
                  Ev_drmModeGetResources (int fd) (Some resources)] @ tc
               @ [Ev_SDL_SetError ''No currently active connector found.''])"
  | fd g resources connector tc te where "k_open k (devindex v) = Some fd"
    "find_connector k (int fd) (res_connectors resources) = (Some connector, tc)"
    "find_encoder k (int fd) connector (res_encoders resources) = (None, te)"
    "R = VideoInit_cleanup SDL_SetError (v\<lparr>drm_fd := int fd, gbm := Some g\<rparr>)
           (calloc_DisplayData\<lparr>conn_id := connector_id connector\<rparr>)
           (Some resources) (Some connector) None
           (ta @ [Ev_open (devindex v) (int fd), Ev_SDL_free A_devname,
                  Ev_gbm_create_device (int fd) (Some g),
                  Ev_drmModeGetResources (int fd) (Some resources)] @ tc @ te
               @ [Ev_SDL_SetError ''No connected encoder found.''])"
  | fd g resources connector tc encoder te encoder1 tk where
    "k_open k (devindex v) = Some fd"
    "find_connector k (int fd) (res_connectors resources) = (Some connector, tc)"
    "find_encoder k (int fd) connector (res_encoders resources) = (Some encoder, te)"
    "select_crtc k (int fd) encoder (res_crtcs resources) = (encoder1, None, tk)"
    "R = VideoInit_cleanup SDL_SetError (v\<lparr>drm_fd := int fd, gbm := Some g\<rparr>)
           (calloc_DisplayData\<lparr>conn_id := connector_id connector\<rparr>)
           (Some resources) (Some connector) (Some encoder1)
           (ta @ [Ev_open (devindex v) (int fd), Ev_SDL_free A_devname,
                  Ev_gbm_create_device (int fd) (Some g),
                  Ev_drmModeGetResources (int fd) (Some resources)] @ tc @ te @ tk
               @ [Ev_SDL_SetError ''No CRTC found.''])"
  | fd g resources connector tc encoder te encoder1 crtc tk where
    "k_open k (devindex v) = Some fd"
    "gbm_create_device k (int fd) = Some g"
    "drmModeGetResources k (int fd) = Some resources"
    "find_connector k (int fd) (res_connectors resources) = (Some connector, tc)"
    "find_encoder k (int fd) connector (res_encoders resources) = (Some encoder, te)"
    "select_crtc k (int fd) encoder (res_crtcs resources) = (encoder1, Some crtc, tk)"
    "R = VideoInit_register k (v\<lparr>drm_fd := int fd, gbm := Some g\<rparr>)
           (calloc_DisplayData\<lparr>conn_id := connector_id connector\<rparr>)
           connector encoder1 crtc
           (ta @ [Ev_open (devindex v) (int fd), Ev_SDL_free A_devname,
                  Ev_gbm_create_device (int fd) (Some g),
                  Ev_drmModeGetResources (int fd) (Some resources)] @ tc @ te @ tk)"
proof -
  note defs = R_def ta_def KMSDRM_VideoInit_def c_open_def Let_def
  show thesis
  proof (cases "SDL_calloc k A_DisplayData")
    case False
    then show thesis by (intro that(1)) (simp add: defs)
  next
    case a1: True
    show thesis
    proof (cases "SDL_calloc k A_devname")
      case False
      with a1 show thesis by (intro that(2)) (simp add: defs)
    next
      case a2: True
      show thesis
      proof (cases "k_open k (devindex v)")
        case None
        with a1 a2 show thesis by (intro that(3)) (simp_all add: defs)
      next
        case (Some fd)
        note a3 = Some
        show thesis
        proof (cases "gbm_create_device k (int fd)")
          case None
          with a1 a2 a3 show thesis by (intro that(4) [of fd]) (simp_all add: defs)
        next
          case (Some g)
          note a4 = Some
          show thesis
          proof (cases "drmModeGetResources k (int fd)")
            case None
            with a1 a2 a3 a4 show thesis by (intro that(5) [of fd g]) (simp_all add: defs)
          next
            case (Some resources)
            note a5 = Some
            obtain rc tc where fc: "find_connector k (int fd) (res_connectors resources) = (rc, tc)"
              by (cases "find_connector k (int fd) (res_connectors resources)")
            show thesis
            proof (cases rc)
              case None
              with a1 a2 a3 a4 a5 fc show thesis
                by (intro that(6) [of fd resources tc g]) (simp_all add: defs)
            next
              case (Some connector)
              note a6 = fc [unfolded Some]
              obtain re te where fe:
                "find_encoder k (int fd) connector (res_encoders resources) = (re, te)"
                by (cases "find_encoder k (int fd) connector (res_encoders resources)")
              show thesis
              proof (cases re)
                case None
                with a1 a2 a3 a4 a5 a6 fe show thesis
                  by (intro that(7) [of fd resources connector tc te g]) (simp_all add: defs)
              next
                case (Some encoder)
                note a7 = fe [unfolded Some]
                obtain encoder1 rk tk where sc:
                  "select_crtc k (int fd) encoder (res_crtcs resources) = (encoder1, rk, tk)"
                  by (cases "select_crtc k (int fd) encoder (res_crtcs resources)")
                show thesis
                proof (cases rk)
                  case None
                  with a1 a2 a3 a4 a5 a6 a7 sc show thesis
                    by (intro that(8) [of fd resources connector tc encoder te encoder1 tk g])
                       (simp_all add: defs)
                next
                  case (Some crtc)
                  with a1 a2 a3 a4 a5 a6 a7 sc show thesis
                    by (intro that(9) [of fd g resources connector tc encoder te encoder1 crtc tk])
                       (simp_all add: defs)
                qed
              qed
            qed
          qed
        qed
      qed
    qed
  qed
qed

lemma kernel_ex_simps:
  "SDL_calloc kernel_ex a" "c_open kernel_ex 1 = 4" "gbm_create_device kernel_ex fd = Some 1"
  "drmModeGetResources kernel_ex 4 = Some resources_1"
  "drmModeGetConnector kernel_ex 4 20 = Some connector_A"
  "drmModeGetConnector kernel_ex 4 21 = Some connector_B"
  "drmModeGetEncoder kernel_ex 4 7 = Some encoder_7"
  "drmModeGetCrtc kernel_ex 4 10 = Some crtc_10"
  "SDL_INPUT_LINUXEV kernel_ex" "SDL_VIDEO_OPENGL_EGL kernel_ex"
  by (simp_all add: kernel_ex_def c_open_def)

lemma find_connector_ex:
  "find_connector kernel_ex 4 (res_connectors resources_1) =
     (Some connector_B, [Ev_drmModeGetConnector 20 (Some 20), Ev_drmModeFreeConnector 20,
                         Ev_drmModeGetConnector 21 (Some 21)])"
  by (simp add: resources_1_def kernel_ex_simps connector_A_def connector_B_def count_modes_def)

lemma find_encoder_ex:
  "find_encoder kernel_ex 4 connector_B (res_encoders resources_1) =
     (Some encoder_7, [Ev_drmModeGetEncoder 7 (Some 7)])"
  by (simp add: resources_1_def kernel_ex_simps connector_B_def encoder_7_def)

lemma select_crtc_ex:
  "select_crtc kernel_ex 4 encoder_7 (res_crtcs resources_1) =
     (encoder_7, Some crtc_10, [Ev_drmModeGetCrtc 10 (Some 10)])"
  by (simp add: select_crtc_def encoder_7_def kernel_ex_simps crtc_10_def)

lemma VideoInit_ex:
  "KMSDRM_VideoInit kernel_ex viddata_1 =
     \<lparr>init_ret = 0,
      init_viddata = \<lparr>devindex = 1, drm_fd = 4, gbm = Some 1\<rparr>,
      init_display = Some display_ex,
      init_trace =
        [Ev_SDL_calloc A_DisplayData True, Ev_SDL_calloc A_devname True, Ev_open 1 4,
         Ev_SDL_free A_devname, Ev_gbm_create_device 4 (Some 1),
         Ev_drmModeGetResources 4 (Some resources_1),
         Ev_drmModeGetConnector 20 (Some 20), Ev_drmModeFreeConnector 20,
         Ev_drmModeGetConnector 21 (Some 21), Ev_drmModeGetEncoder 7 (Some 7),
         Ev_drmModeGetCrtc 10 (Some 10), Ev_SDL_AddVideoDisplay display_ex,
         Ev_SDL_EVDEV_Init, Ev_KMSDRM_InitMouse]\<rparr>"
  by (simp add: KMSDRM_VideoInit_def viddata_1_def kernel_ex_simps Let_def find_connector_ex
      find_encoder_ex select_crtc_ex VideoInit_register_def calloc_DisplayData_def
      display_ex_def dispdata_ex_def)
    (simp add: connector_B_def encoder_7_def crtc_10_def mode_720_def)

lemma outstanding_VideoInit_ex:
  "outstanding (init_trace (KMSDRM_VideoInit kernel_ex viddata_1)) =
     [R_crtc 10, R_encoder 7, R_connector 21, R_resources resources_1, R_gbm 1, R_fd 4,
      R_mem A_DisplayData]"
  by (simp add: VideoInit_ex outstanding_def track_def)

lemmas cleanup_simps = VideoInit_cleanup_def SDL_SetError_def SDL_OutOfMemory_def
  outstanding_def track_def calloc_DisplayData_def

lemma VideoInit_failed:
  assumes "init_ret (KMSDRM_VideoInit k v) \<noteq> 0"
  shows "outstanding (init_trace (KMSDRM_VideoInit k v)) = []
       \<and> init_display (KMSDRM_VideoInit k v) = None
       \<and> (drm_fd v = - 1 \<and> gbm v = None \<longrightarrow>
            drm_fd (init_viddata (KMSDRM_VideoInit k v)) = - 1
            \<and> gbm (init_viddata (KMSDRM_VideoInit k v)) = None)"
proof (cases rule: VideoInit_cases [of k v])
  case no_dispdata
  then show ?thesis by (simp add: cleanup_simps)
next
  case no_devname
  then show ?thesis by (simp add: cleanup_simps split: option.splits)
next
  case no_open
  then show ?thesis by (simp add: cleanup_simps split: option.splits)
next
  case (no_gbm fd)
  then show ?thesis by (simp add: cleanup_simps split: option.splits)
next
  case (no_resources fd g)
  then show ?thesis by (simp add: cleanup_simps split: option.splits)
next
  case (no_connector fd resources tc g)
  from no_connector(3) track_find_connector [OF no_connector(2)]
  show ?thesis by (simp add: cleanup_simps split: option.splits)
next
  case (no_encoder fd resources connector tc te g)
  from no_encoder(4) track_find_connector [OF no_encoder(2)]
    track_find_encoder [OF no_encoder(3)]
  show ?thesis by (simp add: cleanup_simps split: option.splits)
next
  case (no_crtc fd resources connector tc encoder te encoder1 tk g)
  note s = select_crtc_props [OF no_crtc(4)]
  from no_crtc(5) track_find_connector [OF no_crtc(2)] track_find_encoder [OF no_crtc(3)]
    s [THEN conjunct1] s [THEN conjunct2, THEN conjunct2, THEN conjunct1]
  show ?thesis by (simp add: cleanup_simps split: option.splits)
next
  case (registered fd g resources connector tc encoder te encoder1 crtc tk)
  with assms show ?thesis by (simp add: VideoInit_register_def Let_def)
qed

lemma VideoInit_succeeded:
  assumes "init_ret (KMSDRM_VideoInit k v) = 0"
  obtains fd g resources connector tc encoder te encoder1 crtc tk where
    "k_open k (devindex v) = Some fd"
    "gbm_create_device k (int fd) = Some g"
    "drmModeGetResources k (int fd) = Some resources"
    "find_connector k (int fd) (res_connectors resources) = (Some connector, tc)"
    "find_encoder k (int fd) connector (res_encoders resources) = (Some encoder, te)"
    "select_crtc k (int fd) encoder (res_crtcs resources) = (encoder1, Some crtc, tk)"
    "KMSDRM_VideoInit k v =
       VideoInit_register k (v\<lparr>drm_fd := int fd, gbm := Some g\<rparr>)
         (calloc_DisplayData\<lparr>conn_id := connector_id connector\<rparr>)
         connector encoder1 crtc
         ([Ev_SDL_calloc A_DisplayData True, Ev_SDL_calloc A_devname True]
            @ [Ev_open (devindex v) (int fd), Ev_SDL_free A_devname,
               Ev_gbm_create_device (int fd) (Some g),
               Ev_drmModeGetResources (int fd) (Some resources)] @ tc @ te @ tk)"
    "outstanding (init_trace (KMSDRM_VideoInit k v)) =
       [R_crtc (crtc_crtc_id crtc), R_encoder (enc_encoder_id encoder),
        R_connector (connector_id connector), R_resources resources, R_gbm g,
        R_fd (int fd), R_mem A_DisplayData]"
proof (cases rule: VideoInit_cases [of k v])
  case (registered fd g resources connector tc encoder te encoder1 crtc tk)
  note s = select_crtc_props [OF registered(6)]
  have "outstanding (init_trace (KMSDRM_VideoInit k v)) =
       [R_crtc (crtc_crtc_id crtc), R_encoder (enc_encoder_id encoder),
        R_connector (connector_id connector), R_resources resources, R_gbm g,
        R_fd (int fd), R_mem A_DisplayData]"
    using registered(7) track_find_connector [OF registered(4)]
      track_find_encoder [OF registered(5)]
      s [THEN conjunct2, THEN conjunct2, THEN conjunct1]
    by (simp add: VideoInit_register_def Let_def outstanding_def track_def)
  with registered show ?thesis by (intro that)
qed (insert assms, simp_all add: cleanup_simps)

text \<open>
  Claim C1. After a failing run of \<open>KMSDRM_VideoInit\<close> no kernel query object (resource
  list, connector, encoder) is outstanding. After a successful run exactly three are: the
  encoder, the connector and the resource list the negotiation selected, which the
  function returns without freeing.
\<close>

theorem VideoInit_query_objects:
  "(init_ret (KMSDRM_VideoInit k v) \<noteq> 0 \<longrightarrow>
      filter is_query_object (outstanding (init_trace (KMSDRM_VideoInit k v))) = [])
   \<and> (init_ret (KMSDRM_VideoInit k v) = 0 \<longrightarrow>
        (\<exists>e c rs. filter is_query_object (outstanding (init_trace (KMSDRM_VideoInit k v)))
                     = [R_encoder e, R_connector c, R_resources rs]))"
proof (cases "init_ret (KMSDRM_VideoInit k v) = 0")
  case False
  with VideoInit_failed [of k v] show ?thesis by simp
next
  case True
  from True show ?thesis
  proof (rule VideoInit_succeeded)
    fix fd g resources connector tc encoder te encoder1 crtc tk
    assume "outstanding (init_trace (KMSDRM_VideoInit k v)) =
         [R_crtc (crtc_crtc_id crtc), R_encoder (enc_encoder_id encoder),
          R_connector (connector_id connector), R_resources resources, R_gbm g,
          R_fd (int fd), R_mem A_DisplayData]"
    with True show ?thesis by simp
  qed
qed

lemma VideoInit_no_resources:
  "KMSDRM_VideoInit kernel_no_resources viddata_1 =
     \<lparr>init_ret = - 1, init_viddata = viddata_1, init_display = None,
      init_trace =
        [Ev_SDL_calloc A_DisplayData True, Ev_SDL_calloc A_devname True, Ev_open 1 4,
         Ev_SDL_free A_devname, Ev_gbm_create_device 4 (Some 1),
         Ev_drmModeGetResources 4 None, Ev_SDL_SetError ''drmModeGetResources(%d) failed'',
         Ev_gbm_device_destroy 1, Ev_close 4, Ev_SDL_free A_DisplayData]\<rparr>"
  by (simp add: KMSDRM_VideoInit_def kernel_no_resources_def kernel_ex_def c_open_def
      viddata_1_def Let_def VideoInit_cleanup_def SDL_SetError_def calloc_DisplayData_def)

theorem VideoInit_query_objects_witness:
  "init_ret (KMSDRM_VideoInit kernel_ex viddata_1) = 0
   \<and> filter is_query_object (outstanding (init_trace (KMSDRM_VideoInit kernel_ex viddata_1)))
       = [R_encoder 7, R_connector 21, R_resources resources_1]
   \<and> init_ret (KMSDRM_VideoInit kernel_no_resources viddata_1) = - 1
   \<and> filter is_query_object
         (outstanding (init_trace (KMSDRM_VideoInit kernel_no_resources viddata_1))) = []"
proof -
  have a: "init_ret (KMSDRM_VideoInit kernel_ex viddata_1) = 0"
    "init_ret (KMSDRM_VideoInit kernel_no_resources viddata_1) = - 1"
    by (simp_all add: VideoInit_ex VideoInit_no_resources)
  show ?thesis
    using VideoInit_query_objects [of kernel_ex viddata_1]
      VideoInit_query_objects [of kernel_no_resources viddata_1] a
    by (simp add: outstanding_VideoInit_ex)
qed

text \<open>
  Claim C3. Started on driver data with no descriptor and no allocator (as
  \<open>KMSDRM_CreateDevice\<close> and \<open>KMSDRM_VideoQuit\<close> leave it), a failing \<open>KMSDRM_VideoInit\<close>
  returns with the descriptor field \<open>-1\<close>, no allocator, no display registered and nothing
  outstanding: every descriptor, allocator, CRTC configuration and display descriptor it
  acquired has been released. A successful run registers one display whose descriptor
  holds the selected connector's id, the id of a CRTC and that CRTC's configuration as
  the saved CRTC; the descriptor it opened is still open, the allocator exists, and
  descriptor, allocator, saved CRTC and display descriptor are outstanding.
\<close>

theorem VideoInit_all_or_nothing:
  assumes "drm_fd v = - 1" and "gbm v = None"
  shows "(init_ret (KMSDRM_VideoInit k v) \<noteq> 0 \<longrightarrow>
            drm_fd (init_viddata (KMSDRM_VideoInit k v)) = - 1
            \<and> gbm (init_viddata (KMSDRM_VideoInit k v)) = None
            \<and> init_display (KMSDRM_VideoInit k v) = None
            \<and> outstanding (init_trace (KMSDRM_VideoInit k v)) = [])
       \<and> (init_ret (KMSDRM_VideoInit k v) = 0 \<longrightarrow>
            (\<exists>disp crtc connector fd g.
               init_display (KMSDRM_VideoInit k v) = Some disp
               \<and> Ev_SDL_AddVideoDisplay disp \<in> set (init_trace (KMSDRM_VideoInit k v))
               \<and> saved_crtc (disp_driverdata disp) = Some crtc
               \<and> drmModeGetCrtc k (int fd) (dd_crtc_id (disp_driverdata disp)) = Some crtc
               \<and> fst (find_connector k (int fd)
                         (res_connectors (the (drmModeGetResources k (int fd)))))
                    = Some connector
               \<and> conn_id (disp_driverdata disp) = connector_id connector
               \<and> dd_mode (disp_driverdata disp)
                    = (if mode_valid crtc = 0 then modes connector ! 0 else crtc_mode crtc)
               \<and> k_open k (devindex v) = Some fd
               \<and> init_viddata (KMSDRM_VideoInit k v) = v\<lparr>drm_fd := int fd, gbm := Some g\<rparr>
               \<and> {R_fd (int fd), R_gbm g, R_crtc (crtc_crtc_id crtc), R_mem A_DisplayData}
                    \<subseteq> set (outstanding (init_trace (KMSDRM_VideoInit k v)))))"
proof (cases "init_ret (KMSDRM_VideoInit k v) = 0")
  case False
  with VideoInit_failed [of k v] assms show ?thesis by simp
next
  case True
  from True show ?thesis
  proof (rule VideoInit_succeeded)
    fix fd g resources connector tc encoder te encoder1 crtc tk
    assume o: "k_open k (devindex v) = Some fd"
      and r: "drmModeGetResources k (int fd) = Some resources"
      and fc: "find_connector k (int fd) (res_connectors resources) = (Some connector, tc)"
      and fe: "find_encoder k (int fd) connector (res_encoders resources) = (Some encoder, te)"
      and sc: "select_crtc k (int fd) encoder (res_crtcs resources) = (encoder1, Some crtc, tk)"
      and eq: "KMSDRM_VideoInit k v =
         VideoInit_register k (v\<lparr>drm_fd := int fd, gbm := Some g\<rparr>)
           (calloc_DisplayData\<lparr>conn_id := connector_id connector\<rparr>)
           connector encoder1 crtc
           ([Ev_SDL_calloc A_DisplayData True, Ev_SDL_calloc A_devname True]
              @ [Ev_open (devindex v) (int fd), Ev_SDL_free A_devname,
                 Ev_gbm_create_device (int fd) (Some g),
                 Ev_drmModeGetResources (int fd) (Some resources)] @ tc @ te @ tk)"
      and out: "outstanding (init_trace (KMSDRM_VideoInit k v)) =
         [R_crtc (crtc_crtc_id crtc), R_encoder (enc_encoder_id encoder),
          R_connector (connector_id connector), R_resources resources, R_gbm g,
          R_fd (int fd), R_mem A_DisplayData]"
    note s = select_crtc_props [OF sc]
    from s have g: "drmModeGetCrtc k (int fd) (crtc_id encoder1) = Some crtc" by simp
    show ?thesis
      using True o r fc g out
      by (simp add: eq VideoInit_register_def Let_def calloc_DisplayData_def)
  qed
qed

theorem VideoInit_all_or_nothing_witness:
  "drm_fd viddata_1 = - 1 \<and> gbm viddata_1 = None
   \<and> init_ret (KMSDRM_VideoInit kernel_no_resources viddata_1) = - 1
   \<and> init_viddata (KMSDRM_VideoInit kernel_no_resources viddata_1) = viddata_1
   \<and> outstanding (init_trace (KMSDRM_VideoInit kernel_no_resources viddata_1)) = []
   \<and> init_ret (KMSDRM_VideoInit kernel_ex viddata_1) = 0
   \<and> init_display (KMSDRM_VideoInit kernel_ex viddata_1) = Some display_ex
   \<and> saved_crtc (disp_driverdata display_ex) = Some crtc_10
   \<and> init_viddata (KMSDRM_VideoInit kernel_ex viddata_1) = viddata_open"
proof -
  have f: "drm_fd viddata_1 = - 1" "gbm viddata_1 = None" by (simp_all add: viddata_1_def)
  have a: "init_ret (KMSDRM_VideoInit kernel_ex viddata_1) = 0"
    "init_ret (KMSDRM_VideoInit kernel_no_resources viddata_1) = - 1"
    by (simp_all add: VideoInit_ex VideoInit_no_resources)
  have b: "init_viddata (KMSDRM_VideoInit kernel_no_resources viddata_1) = viddata_1"
    "init_display (KMSDRM_VideoInit kernel_ex viddata_1) = Some display_ex"
    "init_viddata (KMSDRM_VideoInit kernel_ex viddata_1) = viddata_open"
    "saved_crtc (disp_driverdata display_ex) = Some crtc_10"
    by (simp_all add: VideoInit_ex VideoInit_no_resources viddata_open_def display_ex_def
        dispdata_ex_def)
  show ?thesis
    using VideoInit_all_or_nothing [OF f, of kernel_no_resources]
      VideoInit_all_or_nothing [OF f, of kernel_ex] f a b
    by simp
qed

section \<open>Display negotiation: the mode of the display\<close>

lemma find_encoder_current:
  assumes "\<forall>e'\<in>set pre. \<forall>x. drmModeGetEncoder k fd e' = Some x \<longrightarrow>
             enc_encoder_id x \<noteq> encoder_id connector
             \<and> enc_encoder_id x \<notin> set (conn_encoders connector)"
    and "drmModeGetEncoder k fd eid = Some enc"
    and "enc_encoder_id enc = encoder_id connector"
  shows "fst (find_encoder k fd connector (pre @ eid # post)) = Some enc"
  using assms
proof (induction pre)
  case Nil
  then show ?case by simp
next
  case (Cons a pre)
  then show ?case
    by (cases "drmModeGetEncoder k fd a"; cases "find_encoder k fd connector (pre @ eid # post)")
       (auto simp add: Let_def)
qed

text \<open>
  Claim C4, amended. After a successful negotiation the display descriptor holds the
  selected connector, a CRTC id and that CRTC's configuration as saved CRTC; its mode is
  the saved CRTC's mode when \<open>mode_valid\<close> is not 0 and the selected connector's
  \<open>modes[0]\<close> when it is 0; the display's desktop and current mode are this mode, and it is
  the only mode \<open>KMSDRM_GetDisplayModes\<close> adds. When the CRTC of the encoder the scan
  selected can be read, it is the saved CRTC, and with a valid mode its mode is the
  reported one. The encoder the scan selects is the connector's current encoder whenever
  no encoder listed before it is accepted by the scan.
\<close>

theorem VideoInit_mode_resolution:
  assumes "init_ret (KMSDRM_VideoInit k v) = 0"
  shows "\<exists>fd resources connector encoder disp crtc.
      k_open k (devindex v) = Some fd
    \<and> drmModeGetResources k (int fd) = Some resources
    \<and> fst (find_connector k (int fd) (res_connectors resources)) = Some connector
    \<and> fst (find_encoder k (int fd) connector (res_encoders resources)) = Some encoder
    \<and> init_display (KMSDRM_VideoInit k v) = Some disp
    \<and> conn_id (disp_driverdata disp) = connector_id connector
    \<and> saved_crtc (disp_driverdata disp) = Some crtc
    \<and> drmModeGetCrtc k (int fd) (dd_crtc_id (disp_driverdata disp)) = Some crtc
    \<and> dd_mode (disp_driverdata disp)
         = (if mode_valid crtc = 0 then modes connector ! 0 else crtc_mode crtc)
    \<and> KMSDRM_GetDisplayModes disp =
         [\<lparr>format = SDL_PIXELFORMAT_ARGB8888,
           dm_w = uint (hdisplay (dd_mode (disp_driverdata disp))),
           dm_h = uint (vdisplay (dd_mode (disp_driverdata disp))),
           refresh_rate = sint (vrefresh (dd_mode (disp_driverdata disp)))\<rparr>]
    \<and> desktop_mode disp = current_mode disp
    \<and> (\<forall>c. drmModeGetCrtc k (int fd) (crtc_id encoder) = Some c \<longrightarrow>
          crtc = c \<and> dd_crtc_id (disp_driverdata disp) = crtc_id encoder
          \<and> (mode_valid c \<noteq> 0 \<longrightarrow> dd_mode (disp_driverdata disp) = crtc_mode c))
    \<and> (\<forall>pre eid post enc.
          res_encoders resources = pre @ eid # post
          \<and> (\<forall>e'\<in>set pre. \<forall>x. drmModeGetEncoder k (int fd) e' = Some x \<longrightarrow>
                enc_encoder_id x \<noteq> encoder_id connector
                \<and> enc_encoder_id x \<notin> set (conn_encoders connector))
          \<and> drmModeGetEncoder k (int fd) eid = Some enc
          \<and> enc_encoder_id enc = encoder_id connector
          \<longrightarrow> encoder = enc)"
  using assms
proof (rule VideoInit_succeeded)
  fix fd g resources connector tc encoder te encoder1 crtc tk
  assume o: "k_open k (devindex v) = Some fd"
    and r: "drmModeGetResources k (int fd) = Some resources"
    and fc: "find_connector k (int fd) (res_connectors resources) = (Some connector, tc)"
    and fe: "find_encoder k (int fd) connector (res_encoders resources) = (Some encoder, te)"
    and sc: "select_crtc k (int fd) encoder (res_crtcs resources) = (encoder1, Some crtc, tk)"
    and eq: "KMSDRM_VideoInit k v =
       VideoInit_register k (v\<lparr>drm_fd := int fd, gbm := Some g\<rparr>)
         (calloc_DisplayData\<lparr>conn_id := connector_id connector\<rparr>)
         connector encoder1 crtc
         ([Ev_SDL_calloc A_DisplayData True, Ev_SDL_calloc A_devname True]
            @ [Ev_open (devindex v) (int fd), Ev_SDL_free A_devname,
               Ev_gbm_create_device (int fd) (Some g),
               Ev_drmModeGetResources (int fd) (Some resources)] @ tc @ te @ tk)"
  note s = select_crtc_props [OF sc]
  from s have g: "drmModeGetCrtc k (int fd) (crtc_id encoder1) = Some crtc" by simp
  from s have reuse: "\<forall>c. drmModeGetCrtc k (int fd) (crtc_id encoder) = Some c \<longrightarrow>
      encoder1 = encoder \<and> crtc = c" by simp
  have cur: "\<forall>pre eid post enc.
          res_encoders resources = pre @ eid # post
          \<and> (\<forall>e'\<in>set pre. \<forall>x. drmModeGetEncoder k (int fd) e' = Some x \<longrightarrow>
                enc_encoder_id x \<noteq> encoder_id connector
                \<and> enc_encoder_id x \<notin> set (conn_encoders connector))
          \<and> drmModeGetEncoder k (int fd) eid = Some enc
          \<and> enc_encoder_id enc = encoder_id connector
          \<longrightarrow> encoder = enc"
  proof (intro allI impI, elim conjE)
    fix pre eid post enc
    assume a: "res_encoders resources = pre @ eid # post"
      "\<forall>e'\<in>set pre. \<forall>x. drmModeGetEncoder k (int fd) e' = Some x \<longrightarrow>
                enc_encoder_id x \<noteq> encoder_id connector
                \<and> enc_encoder_id x \<notin> set (conn_encoders connector)"
      "drmModeGetEncoder k (int fd) eid = Some enc"
      "enc_encoder_id enc = encoder_id connector"
    from find_encoder_current [OF a(2) a(3) a(4), of post] a(1) fe
    show "encoder = enc" by simp
  qed
  define disp where "disp = the (init_display (KMSDRM_VideoInit k v))"
  have d: "init_display (KMSDRM_VideoInit k v) = Some disp"
    by (simp add: disp_def eq VideoInit_register_def Let_def)
  have p1: "conn_id (disp_driverdata disp) = connector_id connector"
    "saved_crtc (disp_driverdata disp) = Some crtc"
    "dd_crtc_id (disp_driverdata disp) = crtc_id encoder1"
    "dd_mode (disp_driverdata disp)
         = (if mode_valid crtc = 0 then modes connector ! 0 else crtc_mode crtc)"
    "desktop_mode disp = current_mode disp"
    "KMSDRM_GetDisplayModes disp =
         [\<lparr>format = SDL_PIXELFORMAT_ARGB8888,
           dm_w = uint (hdisplay (dd_mode (disp_driverdata disp))),
           dm_h = uint (vdisplay (dd_mode (disp_driverdata disp))),
           refresh_rate = sint (vrefresh (dd_mode (disp_driverdata disp)))\<rparr>]"
    by (simp_all add: disp_def eq VideoInit_register_def Let_def calloc_DisplayData_def
        KMSDRM_GetDisplayModes_def)
  have p2: "\<forall>c. drmModeGetCrtc k (int fd) (crtc_id encoder) = Some c \<longrightarrow>
          crtc = c \<and> dd_crtc_id (disp_driverdata disp) = crtc_id encoder
          \<and> (mode_valid c \<noteq> 0 \<longrightarrow> dd_mode (disp_driverdata disp) = crtc_mode c)"
    using reuse p1 by auto
  from o r fc fe d p1 g p2 cur show ?thesis
    by (intro exI [of _ fd] exI [of _ resources] exI [of _ connector] exI [of _ encoder]
        exI [of _ disp] exI [of _ crtc]) simp
qed

lemma kernel_two_encoders_simps:
  "SDL_calloc kernel_two_encoders a" "k_open kernel_two_encoders 1 = Some 4"
  "c_open kernel_two_encoders 1 = 4"
  "gbm_create_device kernel_two_encoders fd = Some 1"
  "drmModeGetResources kernel_two_encoders 4 = Some resources_2"
  "drmModeGetConnector kernel_two_encoders 4 20 = Some connector_A"
  "drmModeGetConnector kernel_two_encoders 4 21 = Some connector_B2"
  "drmModeGetEncoder kernel_two_encoders 4 5 = Some encoder_5"
  "drmModeGetEncoder kernel_two_encoders 4 7 = Some encoder_7"
  "drmModeGetCrtc kernel_two_encoders 4 0 = None"
  "drmModeGetCrtc kernel_two_encoders 4 10 = Some crtc_10"
  "drmModeGetCrtc kernel_two_encoders 4 11 = Some crtc_11"
  "SDL_INPUT_LINUXEV kernel_two_encoders"
  by (simp_all add: kernel_two_encoders_def kernel_ex_def c_open_def)

lemma two_encoders_fields:
  "res_connectors resources_2 = [20, 21]" "res_encoders resources_2 = [5, 7]"
  "res_crtcs resources_2 = [10, 11]"
  "connector_id connector_B2 = 21" "encoder_id connector_B2 = 7"
  "modes connector_B2 ! 0 = mode_1080" "conn_encoders connector_B2 = [5, 7]"
  "connection connector_B2 = DRM_MODE_CONNECTED" "count_modes connector_B2 = 3"
  "connection connector_A = DRM_MODE_DISCONNECTED" "connector_id connector_A = 20"
  "enc_encoder_id encoder_5 = 5" "crtc_id encoder_5 = 0" "possible_crtcs encoder_5 = 2"
  "enc_encoder_id encoder_7 = 7" "crtc_id encoder_7 = 10"
  "mode_valid crtc_11 = 0" "crtc_crtc_id crtc_11 = 11"
  "mode_valid crtc_10 = 1" "crtc_mode crtc_10 = mode_720" "crtc_crtc_id crtc_10 = 10"
  by (simp_all add: resources_2_def connector_B2_def connector_B_def connector_A_def
      encoder_5_def encoder_7_def crtc_11_def crtc_10_def count_modes_def)

lemma find_connector_two_encoders:
  "find_connector kernel_two_encoders 4 [20, 21] =
     (Some connector_B2, [Ev_drmModeGetConnector 20 (Some 20), Ev_drmModeFreeConnector 20,
                          Ev_drmModeGetConnector 21 (Some 21)])"
  by (simp add: kernel_two_encoders_simps two_encoders_fields)

lemma find_encoder_two_encoders:
  "find_encoder kernel_two_encoders 4 connector_B2 [5, 7] =
     (Some encoder_5, [Ev_drmModeGetEncoder 5 (Some 5)])"
  by (simp add: kernel_two_encoders_simps two_encoders_fields)

lemma select_crtc_two_encoders:
  "select_crtc kernel_two_encoders 4 encoder_5 [10, 11] =
     (encoder_5\<lparr>crtc_id := 11\<rparr>, Some crtc_11,
      [Ev_drmModeGetCrtc 0 None, Ev_drmModeGetCrtc 11 (Some 11)])"
  by (simp add: select_crtc_def kernel_two_encoders_simps two_encoders_fields)

lemma VideoInit_two_encoders:
  "init_ret (KMSDRM_VideoInit kernel_two_encoders viddata_1) = 0"
  "map_option disp_driverdata (init_display (KMSDRM_VideoInit kernel_two_encoders viddata_1))
     = Some dispdata_two_encoders"
  by (simp_all add: KMSDRM_VideoInit_def viddata_1_def kernel_two_encoders_simps Let_def
      two_encoders_fields find_connector_two_encoders find_encoder_two_encoders
      select_crtc_two_encoders VideoInit_register_def calloc_DisplayData_def
      dispdata_two_encoders_def)

theorem VideoInit_mode_resolution_witness:
  "init_ret (KMSDRM_VideoInit kernel_ex viddata_1) = 0
   \<and> (\<exists>disp. init_display (KMSDRM_VideoInit kernel_ex viddata_1) = Some disp
         \<and> saved_crtc (disp_driverdata disp) = Some crtc_10
         \<and> dd_crtc_id (disp_driverdata disp) = 10
         \<and> dd_mode (disp_driverdata disp) = mode_720
         \<and> modes connector_B ! 0 = mode_1080
         \<and> KMSDRM_GetDisplayModes disp =
             [\<lparr>format = SDL_PIXELFORMAT_ARGB8888, dm_w = 1280, dm_h = 720,
               refresh_rate = 60\<rparr>])"
proof -
  have ok: "init_ret (KMSDRM_VideoInit kernel_ex viddata_1) = 0" by (simp add: VideoInit_ex)
  show ?thesis
    using VideoInit_mode_resolution [OF ok] ok
    by (simp add: VideoInit_ex display_ex_def dispdata_ex_def KMSDRM_GetDisplayModes_def
        connector_B_def crtc_10_def)
qed

theorem VideoInit_current_encoder_counterexample:
  "\<not> (\<forall>k v fd resources connector enc crtc disp.
        init_ret (KMSDRM_VideoInit k v) = 0
        \<and> k_open k (devindex v) = Some fd
        \<and> drmModeGetResources k (int fd) = Some resources
        \<and> fst (find_connector k (int fd) (res_connectors resources)) = Some connector
        \<and> encoder_id connector \<in> set (res_encoders resources)
        \<and> drmModeGetEncoder k (int fd) (encoder_id connector) = Some enc
        \<and> drmModeGetCrtc k (int fd) (crtc_id enc) = Some crtc
        \<and> mode_valid crtc \<noteq> 0
        \<and> init_display (KMSDRM_VideoInit k v) = Some disp
        \<longrightarrow> saved_crtc (disp_driverdata disp) = Some crtc
            \<and> dd_mode (disp_driverdata disp) = crtc_mode crtc)"
proof
  assume a: "\<forall>k v fd resources connector enc crtc disp.
        init_ret (KMSDRM_VideoInit k v) = 0
        \<and> k_open k (devindex v) = Some fd
        \<and> drmModeGetResources k (int fd) = Some resources
        \<and> fst (find_connector k (int fd) (res_connectors resources)) = Some connector
        \<and> encoder_id connector \<in> set (res_encoders resources)
        \<and> drmModeGetEncoder k (int fd) (encoder_id connector) = Some enc
        \<and> drmModeGetCrtc k (int fd) (crtc_id enc) = Some crtc
        \<and> mode_valid crtc \<noteq> 0
        \<and> init_display (KMSDRM_VideoInit k v) = Some disp
        \<longrightarrow> saved_crtc (disp_driverdata disp) = Some crtc
            \<and> dd_mode (disp_driverdata disp) = crtc_mode crtc"
  from VideoInit_two_encoders(2) obtain disp where
    d: "init_display (KMSDRM_VideoInit kernel_two_encoders viddata_1) = Some disp"
    and dd: "disp_driverdata disp = dispdata_two_encoders" by auto
  have "saved_crtc (disp_driverdata disp) = Some crtc_10"
    using a [rule_format, of kernel_two_encoders viddata_1 4
        resources_2 connector_B2 encoder_7 crtc_10 disp]
      VideoInit_two_encoders(1) d
    by (simp add: kernel_two_encoders_simps viddata_1_def two_encoders_fields
        find_connector_two_encoders)
  with dd show False by (simp add: dispdata_two_encoders_def crtc_10_def crtc_11_def)
qed

section \<open>Framebuffers are created once\<close>

lemma FBFromBO_existing:
  "user_data bo = Some fi \<Longrightarrow> KMSDRM_FBFromBO k v bo = (Some fi, bo, [])"
  by (simp add: KMSDRM_FBFromBO_def)

lemma FBFromBO_attached:
  "KMSDRM_FBFromBO k v bo = (Some fi, bo', t) \<Longrightarrow> user_data bo' = Some fi"
  by (auto simp add: KMSDRM_FBFromBO_def Let_def split: option.splits if_splits)

lemma FBFromBO_created:
  "KMSDRM_FBFromBO k v bo = (r, bo', t) \<Longrightarrow>
     (filter fb_created t = [] \<and> (user_data bo = None \<longrightarrow> bo' = bo))
   \<or> (length (filter fb_created t) = 1 \<and> user_data bo = None \<and> user_data bo' \<noteq> None)"
  by (auto simp add: KMSDRM_FBFromBO_def Let_def split: option.splits if_splits)

lemma FBFromBO_calls_existing:
  "user_data bo \<noteq> None \<Longrightarrow> filter fb_created (snd (FBFromBO_calls cs bo)) = []"
proof (induction cs arbitrary: bo)
  case Nil
  show ?case by simp
next
  case (Cons c cs)
  obtain k v where c: "c = (k, v)" by (cases c)
  from Cons.prems obtain fi where fi: "user_data bo = Some fi" by auto
  have "KMSDRM_FBFromBO k v bo = (Some fi, bo, [])" by (rule FBFromBO_existing [OF fi])
  with Cons.IH [OF Cons.prems] c show ?case by (simp split: prod.splits)
qed

lemma FBFromBO_calls_once:
  "length (filter fb_created (snd (FBFromBO_calls cs bo))) \<le> 1"
proof (induction cs arbitrary: bo)
  case Nil
  show ?case by simp
next
  case (Cons c cs)
  obtain k v where c: "c = (k, v)" by (cases c)
  obtain r bo' t where f: "KMSDRM_FBFromBO k v bo = (r, bo', t)"
    by (cases "KMSDRM_FBFromBO k v bo")
  obtain bo'' t' where g: "FBFromBO_calls cs bo' = (bo'', t')"
    by (cases "FBFromBO_calls cs bo'")
  have tr: "snd (FBFromBO_calls (c # cs) bo) = t @ t'" using c f g by simp
  from FBFromBO_created [OF f] show ?case
  proof
    assume "filter fb_created t = [] \<and> (user_data bo = None \<longrightarrow> bo' = bo)"
    with Cons.IH [of bo'] g tr show ?thesis by simp
  next
    assume h: "length (filter fb_created t) = 1 \<and> user_data bo = None \<and> user_data bo' \<noteq> None"
    then have "filter fb_created t' = []" using FBFromBO_calls_existing [of bo' cs] g by simp
    with h tr show ?thesis by simp
  qed
qed

text \<open>
  Claim C7. A buffer that carries framebuffer data gets it back unchanged, with no call
  made at all; so after a call that returned a framebuffer, every further call on the
  buffer it left, in any environment, returns the same framebuffer and makes no call. Over
  any sequence of calls on one buffer at most one \<open>drmModeAddFB\<close> succeeds.
\<close>

theorem FBFromBO_idempotent:
  "(\<forall>fi. user_data bo = Some fi \<longrightarrow> KMSDRM_FBFromBO k v bo = (Some fi, bo, []))
   \<and> (\<forall>fi bo' t. KMSDRM_FBFromBO k v bo = (Some fi, bo', t) \<longrightarrow>
         KMSDRM_FBFromBO k' v' bo' = (Some fi, bo', []))
   \<and> length (filter fb_created (snd (FBFromBO_calls cs bo))) \<le> 1"
  using FBFromBO_existing FBFromBO_attached FBFromBO_calls_once by blast

lemma FBFromBO_ex:
  "KMSDRM_FBFromBO kernel_ex viddata_open bo_ex =
     (Some \<lparr>fb_drm_fd = 4, fb_id = 77\<rparr>,
      bo_ex\<lparr>user_data := Some \<lparr>fb_drm_fd = 4, fb_id = 77\<rparr>\<rparr>,
      [Ev_SDL_calloc A_FBInfo True, Ev_drmModeAddFB 4 1280 720 24 32 5120 9 (0, 77),
       Ev_gbm_bo_set_user_data \<lparr>fb_drm_fd = 4, fb_id = 77\<rparr>])"
  by (simp add: KMSDRM_FBFromBO_def kernel_ex_def viddata_open_def bo_ex_def Let_def)

theorem FBFromBO_idempotent_witness:
  "KMSDRM_FBFromBO kernel_ex viddata_open
     (bo_ex\<lparr>user_data := Some \<lparr>fb_drm_fd = 4, fb_id = 77\<rparr>\<rparr>) =
     (Some \<lparr>fb_drm_fd = 4, fb_id = 77\<rparr>,
      bo_ex\<lparr>user_data := Some \<lparr>fb_drm_fd = 4, fb_id = 77\<rparr>\<rparr>, [])
   \<and> fst (KMSDRM_FBFromBO kernel_ex viddata_open bo_ex) = Some \<lparr>fb_drm_fd = 4, fb_id = 77\<rparr>"
  using FBFromBO_idempotent [of bo_ex kernel_ex viddata_open kernel_ex viddata_open "[]",
      THEN conjunct2, THEN conjunct1] FBFromBO_ex
  by simp

section \<open>Driver quit restores the saved CRTC\<close>

lemma find_connector_from_kernel:
  "find_connector k fd cs = (Some cn, t) \<Longrightarrow> \<exists>c\<in>set cs. drmModeGetConnector k fd c = Some cn"
proof (induction cs arbitrary: t)
  case Nil
  then show ?case by simp
next
  case (Cons c cs)
  obtain r' t' where rec: "find_connector k fd cs = (r', t')"
    by (cases "find_connector k fd cs")
  from Cons.prems rec Cons.IH [of t'] show ?case
    by (auto split: option.splits if_splits)
qed

lemma VideoQuit_trace:
  "(\<forall>crtc. saved_crtc d = Some crtc \<longrightarrow>
      filter (\<lambda>e. is_SetCrtc e \<or> is_FreeCrtc e) (snd (snd (KMSDRM_VideoQuit k gl v d))) =
        (if 0 \<le> drm_fd v \<and> conn_id d \<noteq> 0
         then [Ev_drmModeSetCrtc (drm_fd v) (crtc_crtc_id crtc) (buffer_id crtc)
                 (crtc_x crtc) (crtc_y crtc) [conn_id d] (crtc_mode crtc)]
         else [])
        @ [Ev_drmModeFreeCrtc (crtc_crtc_id crtc)])
   \<and> (saved_crtc d = None \<longrightarrow>
        filter (\<lambda>e. is_SetCrtc e \<or> is_FreeCrtc e) (snd (snd (KMSDRM_VideoQuit k gl v d))) = [])
   \<and> fst (KMSDRM_VideoQuit k gl v d) =
        v\<lparr>gbm := None, drm_fd := (if 0 \<le> drm_fd v then - 1 else drm_fd v)\<rparr>
   \<and> fst (snd (KMSDRM_VideoQuit k gl v d)) = d\<lparr>saved_crtc := None\<rparr>
   \<and> (\<forall>crtc. saved_crtc d = Some crtc \<and> 0 \<le> drm_fd v \<and> conn_id d \<noteq> 0 \<longrightarrow>
        (Ev_SDL_Log ''Could not restore original CRTC mode''
           \<in> set (snd (snd (KMSDRM_VideoQuit k gl v d)))
         \<longleftrightarrow> drmModeSetCrtc k (drm_fd v) (crtc_crtc_id crtc) (buffer_id crtc)
               (crtc_x crtc) (crtc_y crtc) [conn_id d] (crtc_mode crtc) \<noteq> 0))"
proof -
  have nz: "0 < conn_id d \<longleftrightarrow> conn_id d \<noteq> 0" by (simp add: word_gt_0)
  show ?thesis
    by (cases "saved_crtc d")
       (auto simp add: KMSDRM_VideoQuit_def Let_def nz split: option.splits)
qed

text \<open>
  Claim C8. Let \<open>KMSDRM_VideoInit\<close> have succeeded and registered a display, on a kernel
  whose connectors carry non-zero ids (DRM object ids are never 0). The display descriptor
  then holds a saved CRTC, which is the configuration \<open>drmModeGetCrtc\<close> returned at init
  for the descriptor's CRTC. \<open>KMSDRM_VideoQuit\<close> on the state init left, in any
  environment \<open>k'\<close>, calls \<open>drmModeSetCrtc\<close> exactly once, with the saved CRTC's id, buffer
  id, position and mode and the one saved connector, on the descriptor init opened, and
  after it frees the saved CRTC exactly once. The saved CRTC is \<open>NULL\<close> afterwards, and the
  driver data and display data quit leaves do not depend on what \<open>drmModeSetCrtc\<close>
  returned: a failed restore is logged and nothing else. A second quit on the state the
  first one left neither restores nor frees again.
\<close>

theorem VideoQuit_restores_saved_crtc:
  assumes "init_ret (KMSDRM_VideoInit k v) = 0"
    and "init_display (KMSDRM_VideoInit k v) = Some disp"
    and "\<forall>fd c cn. drmModeGetConnector k fd c = Some cn \<longrightarrow> connector_id cn \<noteq> 0"
  shows "\<exists>crtc.
      saved_crtc (disp_driverdata disp) = Some crtc
    \<and> drmModeGetCrtc k (drm_fd (init_viddata (KMSDRM_VideoInit k v)))
         (dd_crtc_id (disp_driverdata disp)) = Some crtc
    \<and> filter (\<lambda>e. is_SetCrtc e \<or> is_FreeCrtc e)
         (snd (snd (KMSDRM_VideoQuit k' gl (init_viddata (KMSDRM_VideoInit k v))
                      (disp_driverdata disp)))) =
         [Ev_drmModeSetCrtc (drm_fd (init_viddata (KMSDRM_VideoInit k v)))
            (crtc_crtc_id crtc) (buffer_id crtc) (crtc_x crtc) (crtc_y crtc)
            [conn_id (disp_driverdata disp)] (crtc_mode crtc),
          Ev_drmModeFreeCrtc (crtc_crtc_id crtc)]
    \<and> fst (KMSDRM_VideoQuit k' gl (init_viddata (KMSDRM_VideoInit k v))
              (disp_driverdata disp)) =
         (init_viddata (KMSDRM_VideoInit k v))\<lparr>gbm := None, drm_fd := - 1\<rparr>
    \<and> fst (snd (KMSDRM_VideoQuit k' gl (init_viddata (KMSDRM_VideoInit k v))
                   (disp_driverdata disp))) =
         (disp_driverdata disp)\<lparr>saved_crtc := None\<rparr>
    \<and> (Ev_SDL_Log ''Could not restore original CRTC mode''
          \<in> set (snd (snd (KMSDRM_VideoQuit k' gl (init_viddata (KMSDRM_VideoInit k v))
                             (disp_driverdata disp))))
        \<longleftrightarrow> drmModeSetCrtc k' (drm_fd (init_viddata (KMSDRM_VideoInit k v)))
              (crtc_crtc_id crtc) (buffer_id crtc) (crtc_x crtc) (crtc_y crtc)
              [conn_id (disp_driverdata disp)] (crtc_mode crtc) \<noteq> 0)
    \<and> filter (\<lambda>e. is_SetCrtc e \<or> is_FreeCrtc e)
         (snd (snd (KMSDRM_VideoQuit k'' gl'
                      ((init_viddata (KMSDRM_VideoInit k v))\<lparr>gbm := None, drm_fd := - 1\<rparr>)
                      ((disp_driverdata disp)\<lparr>saved_crtc := None\<rparr>)))) = []"
  using assms(1)
proof (rule VideoInit_succeeded)
  fix fd g resources connector tc encoder te encoder1 crtc tk
  assume fc: "find_connector k (int fd) (res_connectors resources) = (Some connector, tc)"
    and sc: "select_crtc k (int fd) encoder (res_crtcs resources) = (encoder1, Some crtc, tk)"
    and eq: "KMSDRM_VideoInit k v =
       VideoInit_register k (v\<lparr>drm_fd := int fd, gbm := Some g\<rparr>)
         (calloc_DisplayData\<lparr>conn_id := connector_id connector\<rparr>)
         connector encoder1 crtc
         ([Ev_SDL_calloc A_DisplayData True, Ev_SDL_calloc A_devname True]
            @ [Ev_open (devindex v) (int fd), Ev_SDL_free A_devname,
               Ev_gbm_create_device (int fd) (Some g),
               Ev_drmModeGetResources (int fd) (Some resources)] @ tc @ te @ tk)"
  define V where "V = init_viddata (KMSDRM_VideoInit k v)"
  define D where "D = disp_driverdata disp"
  from find_connector_from_kernel [OF fc] assms(3)
  have cz: "connector_id connector \<noteq> 0" by blast
  from select_crtc_props [OF sc]
  have g: "drmModeGetCrtc k (int fd) (crtc_id encoder1) = Some crtc" by simp
  from assms(2) have d: "saved_crtc D = Some crtc" "conn_id D = connector_id connector"
    "dd_crtc_id D = crtc_id encoder1"
    by (auto simp add: D_def eq VideoInit_register_def Let_def calloc_DisplayData_def
        split: if_splits)
  have vfd: "drm_fd V = int fd" by (simp add: V_def eq VideoInit_register_def Let_def)
  have guard: "0 \<le> drm_fd V \<and> conn_id D \<noteq> 0" using vfd d cz by simp
  note q = VideoQuit_trace [of D k' gl V]
  note q2 = VideoQuit_trace [of "D\<lparr>saved_crtc := None\<rparr>" k'' gl'
      "V\<lparr>gbm := None, drm_fd := - 1\<rparr>"]
  have "saved_crtc D = Some crtc
    \<and> drmModeGetCrtc k (drm_fd V) (dd_crtc_id D) = Some crtc
    \<and> filter (\<lambda>e. is_SetCrtc e \<or> is_FreeCrtc e) (snd (snd (KMSDRM_VideoQuit k' gl V D))) =
         [Ev_drmModeSetCrtc (drm_fd V) (crtc_crtc_id crtc) (buffer_id crtc) (crtc_x crtc)
            (crtc_y crtc) [conn_id D] (crtc_mode crtc),
          Ev_drmModeFreeCrtc (crtc_crtc_id crtc)]
    \<and> fst (KMSDRM_VideoQuit k' gl V D) = V\<lparr>gbm := None, drm_fd := - 1\<rparr>
    \<and> fst (snd (KMSDRM_VideoQuit k' gl V D)) = D\<lparr>saved_crtc := None\<rparr>
    \<and> (Ev_SDL_Log ''Could not restore original CRTC mode''
          \<in> set (snd (snd (KMSDRM_VideoQuit k' gl V D)))
        \<longleftrightarrow> drmModeSetCrtc k' (drm_fd V) (crtc_crtc_id crtc) (buffer_id crtc) (crtc_x crtc)
              (crtc_y crtc) [conn_id D] (crtc_mode crtc) \<noteq> 0)
    \<and> filter (\<lambda>e. is_SetCrtc e \<or> is_FreeCrtc e)
         (snd (snd (KMSDRM_VideoQuit k'' gl' (V\<lparr>gbm := None, drm_fd := - 1\<rparr>)
                      (D\<lparr>saved_crtc := None\<rparr>)))) = []"
    using q q2 d g guard vfd by simp
  then show ?thesis unfolding V_def D_def by blast
qed

lemma connector_ids_ex:
  "\<forall>fd c cn. drmModeGetConnector kernel_ex fd c = Some cn \<longrightarrow> connector_id cn \<noteq> 0"
  by (simp add: kernel_ex_def connector_A_def connector_B_def)

theorem VideoQuit_restores_saved_crtc_witness:
  "init_ret (KMSDRM_VideoInit kernel_ex viddata_1) = 0
   \<and> init_display (KMSDRM_VideoInit kernel_ex viddata_1) = Some display_ex
   \<and> init_viddata (KMSDRM_VideoInit kernel_ex viddata_1) = viddata_open
   \<and> drmModeGetCrtc kernel_ex 4 10 = Some crtc_10
   \<and> filter (\<lambda>e. is_SetCrtc e \<or> is_FreeCrtc e)
        (snd (snd (KMSDRM_VideoQuit kernel_restore_fails False viddata_open dispdata_ex)))
      = [Ev_drmModeSetCrtc 4 10 42 0 0 [21] mode_720, Ev_drmModeFreeCrtc 10]
   \<and> fst (KMSDRM_VideoQuit kernel_restore_fails False viddata_open dispdata_ex) = viddata_1
   \<and> saved_crtc (fst (snd (KMSDRM_VideoQuit kernel_restore_fails False viddata_open
                             dispdata_ex))) = None
   \<and> Ev_SDL_Log ''Could not restore original CRTC mode''
        \<in> set (snd (snd (KMSDRM_VideoQuit kernel_restore_fails False viddata_open
                           dispdata_ex)))"
proof -
  have a: "init_ret (KMSDRM_VideoInit kernel_ex viddata_1) = 0"
    and b: "init_display (KMSDRM_VideoInit kernel_ex viddata_1) = Some display_ex"
    and c: "init_viddata (KMSDRM_VideoInit kernel_ex viddata_1) = viddata_open"
    by (simp_all add: VideoInit_ex viddata_open_def)
  have f: "disp_driverdata display_ex = dispdata_ex" "saved_crtc dispdata_ex = Some crtc_10"
    "dd_crtc_id dispdata_ex = 10" "conn_id dispdata_ex = 21" "drm_fd viddata_open = 4"
    "viddata_open\<lparr>gbm := None, drm_fd := - 1\<rparr> = viddata_1"
    "crtc_crtc_id crtc_10 = 10" "buffer_id crtc_10 = 42" "crtc_x crtc_10 = 0"
    "crtc_y crtc_10 = 0" "crtc_mode crtc_10 = mode_720"
    by (simp_all add: display_ex_def dispdata_ex_def viddata_open_def viddata_1_def crtc_10_def)
  have s: "drmModeSetCrtc kernel_restore_fails 4 10 42 0 0 [21] mode_720 \<noteq> 0"
    by (simp add: kernel_restore_fails_def)
  from VideoQuit_restores_saved_crtc [OF a b connector_ids_ex, of kernel_restore_fails False]
  show ?thesis using a b c s by (auto simp add: f)
qed

section \<open>The wait for a page flip\<close>

lemma drmHandleEvent_eq:
  "drmHandleEvent es w \<longleftrightarrow> w \<and> DRM_EVENT_FLIP_COMPLETE \<notin> set es"
proof (induction es arbitrary: w)
  case Nil
  show ?case by simp
next
  case (Cons e es)
  then show ?case by (cases e) (simp_all add: KMSDRM_FlipHandler_def)
qed

lemma waiting_unchanged:
  "waiting_for_flip w \<Longrightarrow> w\<lparr>waiting_for_flip := True\<rparr> = w"
  by (cases w) simp

lemma WaitPageFlip_idle:
  "\<not> waiting_for_flip w \<Longrightarrow> KMSDRM_WaitPageFlip v w timeout script = Some (True, w, [])"
  by (cases script) simp_all

lemma WaitPageFlip_not_readable:
  assumes "waiting_for_flip w" and "\<not> readable p"
  shows "\<exists>msg. KMSDRM_WaitPageFlip v w timeout (p # rest) =
           Some (False, w, [Ev_poll (drm_fd v) timeout, Ev_SDL_Log msg])"
  using assms by (auto simp add: readable_def)

lemma WaitPageFlip_flip:
  assumes "waiting_for_flip w" and "readable p"
    and "DRM_EVENT_FLIP_COMPLETE \<in> set (drm_events p)"
  shows "KMSDRM_WaitPageFlip v w timeout (p # rest) =
           Some (True, w\<lparr>waiting_for_flip := False\<rparr>,
                 [Ev_poll (drm_fd v) timeout, Ev_drmHandleEvent (drm_fd v)])"
  using assms by (simp add: readable_def drmHandleEvent_eq WaitPageFlip_idle)

lemma WaitPageFlip_other:
  assumes "waiting_for_flip w" and "readable p"
    and "DRM_EVENT_FLIP_COMPLETE \<notin> set (drm_events p)"
  shows "KMSDRM_WaitPageFlip v w timeout (p # rest) =
           map_option (\<lambda>(b, w', t).
               (b, w', [Ev_poll (drm_fd v) timeout, Ev_drmHandleEvent (drm_fd v)] @ t))
             (KMSDRM_WaitPageFlip v w timeout rest)"
  using assms
  by (cases "KMSDRM_WaitPageFlip v w timeout rest")
     (auto simp add: readable_def drmHandleEvent_eq waiting_unchanged)

lemma WaitPageFlip_returns:
  "KMSDRM_WaitPageFlip v w timeout script = Some (b, w', t) \<Longrightarrow>
     (b \<longleftrightarrow> \<not> waiting_for_flip w')
     \<and> (w' = w
        \<or> waiting_for_flip w \<and> w' = w\<lparr>waiting_for_flip := False\<rparr>
          \<and> (\<exists>p\<in>set script. readable p \<and> DRM_EVENT_FLIP_COMPLETE \<in> set (drm_events p))
          \<and> Ev_drmHandleEvent (drm_fd v) \<in> set t)
     \<and> (\<forall>e\<in>set t. is_poll e \<longrightarrow> e = Ev_poll (drm_fd v) timeout)
     \<and> filter is_release_buffer t = []"
proof (induction script arbitrary: b w' t)
  case Nil
  then show ?case by (auto split: if_splits)
next
  case (Cons p rest)
  show ?case
  proof (cases "waiting_for_flip w")
    case False
    with Cons.prems show ?thesis by (simp add: WaitPageFlip_idle)
  next
    case w: True
    show ?thesis
    proof (cases "readable p")
      case False
      from WaitPageFlip_not_readable [OF w False, of v timeout rest] Cons.prems w
      show ?thesis by auto
    next
      case r: True
      show ?thesis
      proof (cases "DRM_EVENT_FLIP_COMPLETE \<in> set (drm_events p)")
        case True
        from Cons.prems WaitPageFlip_flip [OF w r True, of v timeout rest] r True w
        show ?thesis by auto
      next
        case False
        from Cons.prems WaitPageFlip_other [OF w r False, of v timeout rest]
        obtain t' where rec: "KMSDRM_WaitPageFlip v w timeout rest = Some (b, w', t')"
          and t: "t = [Ev_poll (drm_fd v) timeout, Ev_drmHandleEvent (drm_fd v)] @ t'"
          by (cases "KMSDRM_WaitPageFlip v w timeout rest") auto
        from Cons.IH [OF rec] t show ?thesis by auto
      qed
    qed
  qed
qed

text \<open>
  Claim C2, amended. While the window waits for a flip, one return of \<open>poll\<close> decides as
  follows. If it is not a readable wake-up (poll error, hangup or error event, or no
  input: the timeout), the call returns failure and leaves the window data unchanged. If
  it is readable and the events dispatched include a flip completion, the flag is cleared
  and the call returns success. If it is readable and no flip completion is dispatched,
  the window data is unchanged and the call does not return: it polls again and its result
  is that of the wait on the following returns of \<open>poll\<close>. Whatever the returns of
  \<open>poll\<close>, a call that returns has changed nothing or has cleared the flag, and it has
  cleared the flag only after a readable wake-up that dispatched a flip completion; it
  returns success exactly when the flag is clear.
\<close>

theorem WaitPageFlip_cleared_only_by_flip:
  "(waiting_for_flip w \<and> \<not> readable p \<longrightarrow>
      (\<exists>t. KMSDRM_WaitPageFlip v w timeout (p # rest) = Some (False, w, t)))
   \<and> (waiting_for_flip w \<and> readable p \<and> DRM_EVENT_FLIP_COMPLETE \<in> set (drm_events p) \<longrightarrow>
        KMSDRM_WaitPageFlip v w timeout (p # rest) =
          Some (True, w\<lparr>waiting_for_flip := False\<rparr>,
                [Ev_poll (drm_fd v) timeout, Ev_drmHandleEvent (drm_fd v)]))
   \<and> (waiting_for_flip w \<and> readable p \<and> DRM_EVENT_FLIP_COMPLETE \<notin> set (drm_events p) \<longrightarrow>
        KMSDRM_WaitPageFlip v w timeout (p # rest) =
          map_option (\<lambda>(b, w', t).
              (b, w', [Ev_poll (drm_fd v) timeout, Ev_drmHandleEvent (drm_fd v)] @ t))
            (KMSDRM_WaitPageFlip v w timeout rest))
   \<and> (\<forall>b w' t. KMSDRM_WaitPageFlip v w timeout script = Some (b, w', t) \<longrightarrow>
        (b \<longleftrightarrow> \<not> waiting_for_flip w')
        \<and> (w' = w
           \<or> waiting_for_flip w \<and> w' = w\<lparr>waiting_for_flip := False\<rparr>
             \<and> (\<exists>p\<in>set script. readable p \<and> DRM_EVENT_FLIP_COMPLETE \<in> set (drm_events p))
             \<and> Ev_drmHandleEvent (drm_fd v) \<in> set t))"
proof -
  have "\<forall>b w' t. KMSDRM_WaitPageFlip v w timeout script = Some (b, w', t) \<longrightarrow>
        (b \<longleftrightarrow> \<not> waiting_for_flip w')
        \<and> (w' = w
           \<or> waiting_for_flip w \<and> w' = w\<lparr>waiting_for_flip := False\<rparr>
             \<and> (\<exists>p\<in>set script. readable p \<and> DRM_EVENT_FLIP_COMPLETE \<in> set (drm_events p))
             \<and> Ev_drmHandleEvent (drm_fd v) \<in> set t)"
    using WaitPageFlip_returns [of v w timeout script] by blast
  moreover have "waiting_for_flip w \<and> \<not> readable p \<longrightarrow>
      (\<exists>t. KMSDRM_WaitPageFlip v w timeout (p # rest) = Some (False, w, t))"
    using WaitPageFlip_not_readable [of w p v timeout rest] by blast
  ultimately show ?thesis
    using WaitPageFlip_flip [of w p v timeout rest] WaitPageFlip_other [of w p v timeout rest]
    by blast
qed

lemma drm_fd_open: "drm_fd viddata_open = 4"
  by (simp add: viddata_open_def)

lemma poll_simps:
  "readable poll_vblank" "readable poll_flip" "\<not> readable poll_timeout"
  "drm_events poll_vblank = [DRM_EVENT_VBLANK]" "drm_events poll_flip = [DRM_EVENT_FLIP_COMPLETE]"
  "waiting_for_flip windata_ex"
  by (simp_all add: readable_def poll_vblank_def poll_flip_def poll_timeout_def POLLIN_def
      POLLHUP_def POLLERR_def windata_ex_def)

theorem WaitPageFlip_cleared_only_by_flip_witness:
  "waiting_for_flip windata_ex \<and> readable poll_vblank \<and> readable poll_flip
   \<and> \<not> readable poll_timeout
   \<and> KMSDRM_WaitPageFlip viddata_open windata_ex 16 [poll_flip] =
       Some (True, windata_ex\<lparr>waiting_for_flip := False\<rparr>, [Ev_poll 4 16, Ev_drmHandleEvent 4])
   \<and> (\<exists>t. KMSDRM_WaitPageFlip viddata_open windata_ex 16 [poll_timeout] =
             Some (False, windata_ex, t))
   \<and> KMSDRM_WaitPageFlip viddata_open windata_ex 16 [poll_vblank] = None"
proof -
  note T = WaitPageFlip_cleared_only_by_flip [of windata_ex _ viddata_open 16 "[]" "[]"]
  have a: "KMSDRM_WaitPageFlip viddata_open windata_ex 16 [poll_flip] =
       Some (True, windata_ex\<lparr>waiting_for_flip := False\<rparr>, [Ev_poll 4 16, Ev_drmHandleEvent 4])"
    using T [of poll_flip, THEN conjunct2, THEN conjunct1] drm_fd_open
    by (simp add: poll_simps)
  have b: "\<exists>t. KMSDRM_WaitPageFlip viddata_open windata_ex 16 [poll_timeout] =
             Some (False, windata_ex, t)"
    using T [of poll_timeout, THEN conjunct1] by (simp add: poll_simps)
  have c: "KMSDRM_WaitPageFlip viddata_open windata_ex 16 [poll_vblank] = None"
    using T [of poll_vblank, THEN conjunct2, THEN conjunct2, THEN conjunct1]
    by (simp add: poll_simps)
  from a b c show ?thesis by (simp add: poll_simps)
qed

theorem WaitPageFlip_frame_dropped_counterexample:
  "\<not> (\<forall>v w timeout p rest.
         waiting_for_flip w \<and> readable p \<and> DRM_EVENT_FLIP_COMPLETE \<notin> set (drm_events p) \<longrightarrow>
         (\<exists>t. KMSDRM_WaitPageFlip v w timeout (p # rest) = Some (False, w, t)))"
proof
  assume "\<forall>v w timeout p rest.
         waiting_for_flip w \<and> readable p \<and> DRM_EVENT_FLIP_COMPLETE \<notin> set (drm_events p) \<longrightarrow>
         (\<exists>t. KMSDRM_WaitPageFlip v w timeout (p # rest) = Some (False, w, t))"
  then have "\<exists>t. KMSDRM_WaitPageFlip viddata_open windata_ex 16 (poll_vblank # [poll_flip])
                  = Some (False, windata_ex, t)"
    using poll_simps by auto
  moreover have "KMSDRM_WaitPageFlip viddata_open windata_ex 16 (poll_vblank # [poll_flip]) =
      Some (True, windata_ex\<lparr>waiting_for_flip := False\<rparr>,
            [Ev_poll 4 16, Ev_drmHandleEvent 4, Ev_poll 4 16, Ev_drmHandleEvent 4])"
  proof -
    have s1: "KMSDRM_WaitPageFlip viddata_open windata_ex 16 (poll_vblank # [poll_flip]) =
        map_option (\<lambda>(b, w', t).
              (b, w', [Ev_poll (drm_fd viddata_open) 16, Ev_drmHandleEvent (drm_fd viddata_open)] @ t))
            (KMSDRM_WaitPageFlip viddata_open windata_ex 16 [poll_flip])"
      by (rule WaitPageFlip_other) (simp_all add: poll_simps)
    have s2: "KMSDRM_WaitPageFlip viddata_open windata_ex 16 [poll_flip] =
        Some (True, windata_ex\<lparr>waiting_for_flip := False\<rparr>,
              [Ev_poll (drm_fd viddata_open) 16, Ev_drmHandleEvent (drm_fd viddata_open)])"
      by (rule WaitPageFlip_flip) (simp_all add: poll_simps)
    have fd: "drm_fd viddata_open = 4" by (simp add: viddata_open_def)
    show ?thesis by (simp add: s1 s2 fd del: KMSDRM_WaitPageFlip.simps)
  qed
  ultimately show False by simp
qed

section \<open>Window destruction\<close>

lemma WaitPageFlip_prefix:
  assumes "waiting_for_flip w"
    and "\<forall>q\<in>set pre. readable q \<and> DRM_EVENT_FLIP_COMPLETE \<notin> set (drm_events q)"
  shows "KMSDRM_WaitPageFlip v w timeout (pre @ rest) =
           map_option (\<lambda>(b, w', t).
               (b, w', concat (replicate (length pre)
                         [Ev_poll (drm_fd v) timeout, Ev_drmHandleEvent (drm_fd v)]) @ t))
             (KMSDRM_WaitPageFlip v w timeout rest)"
  using assms(2)
proof (induction pre)
  case Nil
  show ?case by (cases "KMSDRM_WaitPageFlip v w timeout rest") auto
next
  case (Cons q pre)
  then have q: "readable q" "DRM_EVENT_FLIP_COMPLETE \<notin> set (drm_events q)"
    and r: "\<forall>q\<in>set pre. readable q \<and> DRM_EVENT_FLIP_COMPLETE \<notin> set (drm_events q)"
    by simp_all
  have "KMSDRM_WaitPageFlip v w timeout (q # (pre @ rest)) =
      map_option (\<lambda>(b, w', t).
          (b, w', [Ev_poll (drm_fd v) timeout, Ev_drmHandleEvent (drm_fd v)] @ t))
        (KMSDRM_WaitPageFlip v w timeout (pre @ rest))"
    by (rule WaitPageFlip_other [OF assms(1) q])
  with Cons.IH [OF r] show ?case
    by (cases "KMSDRM_WaitPageFlip v w timeout rest") auto
qed

lemma WaitPageFlip_blocks:
  assumes "waiting_for_flip w"
    and "\<forall>q\<in>set script. readable q \<and> DRM_EVENT_FLIP_COMPLETE \<notin> set (drm_events q)"
  shows "KMSDRM_WaitPageFlip v w timeout script = None"
  using WaitPageFlip_prefix [OF assms, of v timeout "[]"] assms(1) by simp

lemma WaitPageFlip_polls_first:
  assumes "waiting_for_flip w"
    and "KMSDRM_WaitPageFlip v w timeout script = Some (b, w', t)"
  shows "\<exists>t'. t = Ev_poll (drm_fd v) timeout # t'"
proof (cases script)
  case Nil
  with assms show ?thesis by simp
next
  case (Cons p rest)
  show ?thesis
  proof (cases "readable p")
    case False
    from WaitPageFlip_not_readable [OF assms(1) False, of v timeout rest] assms(2) Cons
    show ?thesis by auto
  next
    case r: True
    show ?thesis
    proof (cases "DRM_EVENT_FLIP_COMPLETE \<in> set (drm_events p)")
      case True
      from WaitPageFlip_flip [OF assms(1) r True, of v timeout rest] assms(2) Cons
      show ?thesis by auto
    next
      case False
      from WaitPageFlip_other [OF assms(1) r False, of v timeout rest] assms(2) Cons
      show ?thesis by (cases "KMSDRM_WaitPageFlip v w timeout rest") auto
    qed
  qed
qed

lemma DestroyWindow_after_wait:
  assumes "win_driverdata window = Some wd"
    and "KMSDRM_WaitPageFlip v wd (- 1) script = Some (b, wd', tw)"
  shows "KMSDRM_DestroyWindow k v window script =
           Some (window\<lparr>win_driverdata := None\<rparr>,
                 tw
                 @ (case curr_bo wd of
                      Some bo \<Rightarrow> [Ev_gbm_surface_release_buffer (gs wd) bo] | None \<Rightarrow> [])
                 @ (case next_bo wd of
                      Some bo \<Rightarrow> [Ev_gbm_surface_release_buffer (gs wd) bo] | None \<Rightarrow> [])
                 @ (if SDL_VIDEO_OPENGL_EGL k then
                      Ev_SDL_EGL_MakeCurrent_none
                      # (case egl_surface wd of
                           Some s \<Rightarrow> [Ev_SDL_EGL_DestroySurface s] | None \<Rightarrow> [])
                    else [])
                 @ (case gs wd of Some g \<Rightarrow> [Ev_gbm_surface_destroy g] | None \<Rightarrow> [])
                 @ [Ev_SDL_free A_WindowData])"
proof -
  from WaitPageFlip_returns [OF assms(2)]
  have "wd' = wd \<or> wd' = wd\<lparr>waiting_for_flip := False\<rparr>" by blast
  then have f: "curr_bo wd' = curr_bo wd" "next_bo wd' = next_bo wd" "gs wd' = gs wd"
    "egl_surface wd' = egl_surface wd" by auto
  show ?thesis using assms by (simp add: KMSDRM_DestroyWindow_def f cong: option.case_cong)
qed

lemma DestroyWindow_blocked:
  assumes "win_driverdata window = Some wd"
    and "KMSDRM_WaitPageFlip v wd (- 1) script = None"
  shows "KMSDRM_DestroyWindow k v window script = None"
  using assms by (simp add: KMSDRM_DestroyWindow_def)

text \<open>
  Claim C9. For a window with driver data, \<open>KMSDRM_DestroyWindow\<close> first runs the wait
  for the page flip with timeout \<open>-1\<close>, and only when the wait has returned does it go on,
  in this order: release of the current buffer if there is one, release of the next
  buffer if there is one, release of the EGL surface (when built with EGL), destruction of
  the GBM surface if there is one, and the window data is freed. The wait releases no
  buffer and every \<open>poll\<close> in it has timeout \<open>-1\<close>.

  With no flip pending the wait polls nothing. With a flip pending the wait is a real
  wait: the first call of every destruction that returns is \<open>poll\<close> on the device
  descriptor with timeout \<open>-1\<close>; as long as \<open>poll\<close> only reports readable wake-ups with no
  flip completion, or does not return, the destruction does not return and releases
  nothing; when after \<open>n\<close> such wake-ups the descriptor reports the completion, the
  destruction completes, having polled and dispatched \<open>n + 1\<close> times, and then releases
  the current and the next buffer, each by exactly one call; and when instead \<open>poll\<close>
  fails or reports a hangup, an error or no input, the wait ends there and the destruction
  goes on in the same order.
\<close>

theorem DestroyWindow_order:
  assumes "win_driverdata window = Some wd"
  shows "(\<forall>b wd' tw. KMSDRM_WaitPageFlip v wd (- 1) script = Some (b, wd', tw) \<longrightarrow>
            KMSDRM_DestroyWindow k v window script =
              Some (window\<lparr>win_driverdata := None\<rparr>,
                    tw
                    @ (case curr_bo wd of
                         Some bo \<Rightarrow> [Ev_gbm_surface_release_buffer (gs wd) bo] | None \<Rightarrow> [])
                    @ (case next_bo wd of
                         Some bo \<Rightarrow> [Ev_gbm_surface_release_buffer (gs wd) bo] | None \<Rightarrow> [])
                    @ (if SDL_VIDEO_OPENGL_EGL k then
                         Ev_SDL_EGL_MakeCurrent_none
                         # (case egl_surface wd of
                              Some s \<Rightarrow> [Ev_SDL_EGL_DestroySurface s] | None \<Rightarrow> [])
                       else [])
                    @ (case gs wd of Some g \<Rightarrow> [Ev_gbm_surface_destroy g] | None \<Rightarrow> [])
                    @ [Ev_SDL_free A_WindowData])
            \<and> (\<forall>e\<in>set tw. is_poll e \<longrightarrow> e = Ev_poll (drm_fd v) (- 1))
            \<and> filter is_release_buffer tw = [])
       \<and> (KMSDRM_WaitPageFlip v wd (- 1) script = None \<longrightarrow>
            KMSDRM_DestroyWindow k v window script = None)
       \<and> (\<not> waiting_for_flip wd \<longrightarrow>
            KMSDRM_WaitPageFlip v wd (- 1) script = Some (True, wd, []))
       \<and> (waiting_for_flip wd \<longrightarrow>
            (\<forall>w t. KMSDRM_DestroyWindow k v window script = Some (w, t) \<longrightarrow>
               (\<exists>t'. t = Ev_poll (drm_fd v) (- 1) # t')))
       \<and> (waiting_for_flip wd
            \<and> (\<forall>q\<in>set script. readable q \<and> DRM_EVENT_FLIP_COMPLETE \<notin> set (drm_events q)) \<longrightarrow>
            KMSDRM_DestroyWindow k v window script = None)
       \<and> (\<forall>pre p rest.
            waiting_for_flip wd \<and> script = pre @ p # rest
            \<and> (\<forall>q\<in>set pre. readable q \<and> DRM_EVENT_FLIP_COMPLETE \<notin> set (drm_events q))
            \<and> readable p \<and> DRM_EVENT_FLIP_COMPLETE \<in> set (drm_events p) \<longrightarrow>
            (\<exists>t. KMSDRM_DestroyWindow k v window script =
                    Some (window\<lparr>win_driverdata := None\<rparr>,
                          concat (replicate (Suc (length pre))
                            [Ev_poll (drm_fd v) (- 1), Ev_drmHandleEvent (drm_fd v)]) @ t)
                \<and> t = (case curr_bo wd of
                         Some bo \<Rightarrow> [Ev_gbm_surface_release_buffer (gs wd) bo] | None \<Rightarrow> [])
                      @ (case next_bo wd of
                           Some bo \<Rightarrow> [Ev_gbm_surface_release_buffer (gs wd) bo]
                         | None \<Rightarrow> [])
                      @ (if SDL_VIDEO_OPENGL_EGL k then
                           Ev_SDL_EGL_MakeCurrent_none
                           # (case egl_surface wd of
                                Some s \<Rightarrow> [Ev_SDL_EGL_DestroySurface s] | None \<Rightarrow> [])
                         else [])
                      @ (case gs wd of Some g \<Rightarrow> [Ev_gbm_surface_destroy g] | None \<Rightarrow> [])
                      @ [Ev_SDL_free A_WindowData]
                \<and> filter is_release_buffer
                     (concat (replicate (Suc (length pre))
                        [Ev_poll (drm_fd v) (- 1), Ev_drmHandleEvent (drm_fd v)]) @ t) =
                    (case curr_bo wd of
                       Some bo \<Rightarrow> [Ev_gbm_surface_release_buffer (gs wd) bo] | None \<Rightarrow> [])
                    @ (case next_bo wd of
                         Some bo \<Rightarrow> [Ev_gbm_surface_release_buffer (gs wd) bo]
                       | None \<Rightarrow> [])))
       \<and> (\<forall>pre p rest.
            waiting_for_flip wd \<and> script = pre @ p # rest
            \<and> (\<forall>q\<in>set pre. readable q \<and> DRM_EVENT_FLIP_COMPLETE \<notin> set (drm_events q))
            \<and> \<not> readable p \<longrightarrow>
            (\<exists>msg. KMSDRM_DestroyWindow k v window script =
                    Some (window\<lparr>win_driverdata := None\<rparr>,
                          concat (replicate (length pre)
                            [Ev_poll (drm_fd v) (- 1), Ev_drmHandleEvent (drm_fd v)])
                          @ [Ev_poll (drm_fd v) (- 1), Ev_SDL_Log msg]
                          @ (case curr_bo wd of
                               Some bo \<Rightarrow> [Ev_gbm_surface_release_buffer (gs wd) bo]
                             | None \<Rightarrow> [])
                          @ (case next_bo wd of
                               Some bo \<Rightarrow> [Ev_gbm_surface_release_buffer (gs wd) bo]
                             | None \<Rightarrow> [])
                          @ (if SDL_VIDEO_OPENGL_EGL k then
                               Ev_SDL_EGL_MakeCurrent_none
                               # (case egl_surface wd of
                                    Some s \<Rightarrow> [Ev_SDL_EGL_DestroySurface s] | None \<Rightarrow> [])
                             else [])
                          @ (case gs wd of
                               Some g \<Rightarrow> [Ev_gbm_surface_destroy g] | None \<Rightarrow> [])
                          @ [Ev_SDL_free A_WindowData])))"
proof -
  let ?rel = "(case curr_bo wd of
                 Some bo \<Rightarrow> [Ev_gbm_surface_release_buffer (gs wd) bo] | None \<Rightarrow> [])
              @ (case next_bo wd of
                   Some bo \<Rightarrow> [Ev_gbm_surface_release_buffer (gs wd) bo] | None \<Rightarrow> [])"
  let ?tail = "(if SDL_VIDEO_OPENGL_EGL k then
                  Ev_SDL_EGL_MakeCurrent_none
                  # (case egl_surface wd of
                       Some s \<Rightarrow> [Ev_SDL_EGL_DestroySurface s] | None \<Rightarrow> [])
                else [])
               @ (case gs wd of Some g \<Rightarrow> [Ev_gbm_surface_destroy g] | None \<Rightarrow> [])
               @ [Ev_SDL_free A_WindowData]"
  let ?ph = "[Ev_poll (drm_fd v) (- 1), Ev_drmHandleEvent (drm_fd v)]"
  have D: "\<And>b wd' tw. KMSDRM_WaitPageFlip v wd (- 1) script = Some (b, wd', tw) \<Longrightarrow>
      KMSDRM_DestroyWindow k v window script =
        Some (window\<lparr>win_driverdata := None\<rparr>, tw @ ?rel @ ?tail)"
    using DestroyWindow_after_wait [OF assms, of v script _ _ _ k] by simp
  have a: "\<forall>b wd' tw. KMSDRM_WaitPageFlip v wd (- 1) script = Some (b, wd', tw) \<longrightarrow>
            KMSDRM_DestroyWindow k v window script =
              Some (window\<lparr>win_driverdata := None\<rparr>, tw @ ?rel @ ?tail)
            \<and> (\<forall>e\<in>set tw. is_poll e \<longrightarrow> e = Ev_poll (drm_fd v) (- 1))
            \<and> filter is_release_buffer tw = []"
    using D WaitPageFlip_returns [of v wd "- 1" script] by blast
  have b: "KMSDRM_WaitPageFlip v wd (- 1) script = None \<longrightarrow>
            KMSDRM_DestroyWindow k v window script = None"
    using DestroyWindow_blocked [OF assms] by blast
  have c: "\<not> waiting_for_flip wd \<longrightarrow>
            KMSDRM_WaitPageFlip v wd (- 1) script = Some (True, wd, [])"
    by (simp add: WaitPageFlip_idle)
  have e: "waiting_for_flip wd \<longrightarrow>
            (\<forall>w t. KMSDRM_DestroyWindow k v window script = Some (w, t) \<longrightarrow>
               (\<exists>t'. t = Ev_poll (drm_fd v) (- 1) # t'))"
  proof (intro impI allI)
    fix w t
    assume wt: "waiting_for_flip wd"
      and r: "KMSDRM_DestroyWindow k v window script = Some (w, t)"
    show "\<exists>t'. t = Ev_poll (drm_fd v) (- 1) # t'"
    proof (cases "KMSDRM_WaitPageFlip v wd (- 1) script")
      case None
      with b r show ?thesis by simp
    next
      case (Some x)
      obtain b0 wd' tw where x: "x = (b0, wd', tw)" by (cases x)
      from WaitPageFlip_polls_first [OF wt Some [unfolded x]]
      obtain t' where "tw = Ev_poll (drm_fd v) (- 1) # t'" by blast
      with D [OF Some [unfolded x]] r show ?thesis by auto
    qed
  qed
  have f: "waiting_for_flip wd
            \<and> (\<forall>q\<in>set script. readable q \<and> DRM_EVENT_FLIP_COMPLETE \<notin> set (drm_events q)) \<longrightarrow>
            KMSDRM_DestroyWindow k v window script = None"
    using WaitPageFlip_blocks [of wd script v "- 1"] b by blast
  have g: "\<forall>pre p rest.
            waiting_for_flip wd \<and> script = pre @ p # rest
            \<and> (\<forall>q\<in>set pre. readable q \<and> DRM_EVENT_FLIP_COMPLETE \<notin> set (drm_events q))
            \<and> readable p \<and> DRM_EVENT_FLIP_COMPLETE \<in> set (drm_events p) \<longrightarrow>
            (\<exists>t. KMSDRM_DestroyWindow k v window script =
                    Some (window\<lparr>win_driverdata := None\<rparr>,
                          concat (replicate (Suc (length pre)) ?ph) @ t)
                \<and> t = ?rel @ ?tail
                \<and> filter is_release_buffer (concat (replicate (Suc (length pre)) ?ph) @ t)
                    = ?rel)"
  proof (intro allI impI, elim conjE)
    fix pre p rest
    assume h: "waiting_for_flip wd" "script = pre @ p # rest"
      "\<forall>q\<in>set pre. readable q \<and> DRM_EVENT_FLIP_COMPLETE \<notin> set (drm_events q)"
      "readable p" "DRM_EVENT_FLIP_COMPLETE \<in> set (drm_events p)"
    have w: "KMSDRM_WaitPageFlip v wd (- 1) script =
        Some (True, wd\<lparr>waiting_for_flip := False\<rparr>, concat (replicate (length pre) ?ph) @ ?ph)"
      using WaitPageFlip_prefix [OF h(1) h(3), of v "- 1" "p # rest"]
        WaitPageFlip_flip [OF h(1) h(4) h(5), of v "- 1" rest] h(2)
      by simp
    have r: "concat (replicate (length pre) ?ph) @ ?ph = concat (replicate (Suc (length pre)) ?ph)"
      by (induction pre) simp_all
    have fl: "filter is_release_buffer (concat (replicate (Suc (length pre)) ?ph)) = []"
      by (induction pre) simp_all
    have ft: "filter is_release_buffer (?rel @ ?tail) = ?rel"
      by (simp split: option.splits)
    from D [OF w] r have "KMSDRM_DestroyWindow k v window script =
        Some (window\<lparr>win_driverdata := None\<rparr>,
              concat (replicate (Suc (length pre)) ?ph) @ ?rel @ ?tail)" by simp
    moreover have "filter is_release_buffer
        (concat (replicate (Suc (length pre)) ?ph) @ ?rel @ ?tail) = ?rel"
      using fl ft by (simp only: filter_append append_Nil)
    ultimately show "\<exists>t. KMSDRM_DestroyWindow k v window script =
                    Some (window\<lparr>win_driverdata := None\<rparr>,
                          concat (replicate (Suc (length pre)) ?ph) @ t)
                \<and> t = ?rel @ ?tail
                \<and> filter is_release_buffer (concat (replicate (Suc (length pre)) ?ph) @ t)
                    = ?rel"
      by blast
  qed
  have i: "\<forall>pre p rest.
            waiting_for_flip wd \<and> script = pre @ p # rest
            \<and> (\<forall>q\<in>set pre. readable q \<and> DRM_EVENT_FLIP_COMPLETE \<notin> set (drm_events q))
            \<and> \<not> readable p \<longrightarrow>
            (\<exists>msg. KMSDRM_DestroyWindow k v window script =
                    Some (window\<lparr>win_driverdata := None\<rparr>,
                          concat (replicate (length pre) ?ph)
                          @ [Ev_poll (drm_fd v) (- 1), Ev_SDL_Log msg] @ ?rel @ ?tail))"
  proof (intro allI impI, elim conjE)
    fix pre p rest
    assume h: "waiting_for_flip wd" "script = pre @ p # rest"
      "\<forall>q\<in>set pre. readable q \<and> DRM_EVENT_FLIP_COMPLETE \<notin> set (drm_events q)"
      "\<not> readable p"
    from WaitPageFlip_not_readable [OF h(1) h(4), of v "- 1" rest]
    obtain msg where m: "KMSDRM_WaitPageFlip v wd (- 1) (p # rest) =
        Some (False, wd, [Ev_poll (drm_fd v) (- 1), Ev_SDL_Log msg])" by blast
    have w: "KMSDRM_WaitPageFlip v wd (- 1) script =
        Some (False, wd, concat (replicate (length pre) ?ph)
                           @ [Ev_poll (drm_fd v) (- 1), Ev_SDL_Log msg])"
      using WaitPageFlip_prefix [OF h(1) h(3), of v "- 1" "p # rest"] m h(2) by simp
    from D [OF w] show "\<exists>msg. KMSDRM_DestroyWindow k v window script =
                    Some (window\<lparr>win_driverdata := None\<rparr>,
                          concat (replicate (length pre) ?ph)
                          @ [Ev_poll (drm_fd v) (- 1), Ev_SDL_Log msg] @ ?rel @ ?tail)"
      by auto
  qed
  from a b c e f g i show ?thesis by (simp only: append_assoc)
qed

theorem DestroyWindow_order_witness:
  "win_driverdata window_ex = Some windata_ex \<and> waiting_for_flip windata_ex
   \<and> readable poll_vblank \<and> DRM_EVENT_FLIP_COMPLETE \<notin> set (drm_events poll_vblank)
   \<and> readable poll_flip \<and> DRM_EVENT_FLIP_COMPLETE \<in> set (drm_events poll_flip)
   \<and> KMSDRM_DestroyWindow kernel_ex viddata_open window_ex [poll_vblank, poll_flip] =
        Some (\<lparr>win_driverdata = None\<rparr>,
              [Ev_poll 4 (- 1), Ev_drmHandleEvent 4, Ev_poll 4 (- 1), Ev_drmHandleEvent 4,
               Ev_gbm_surface_release_buffer (Some 1) 10,
               Ev_gbm_surface_release_buffer (Some 1) 11,
               Ev_SDL_EGL_MakeCurrent_none, Ev_SDL_EGL_DestroySurface 5,
               Ev_gbm_surface_destroy 1, Ev_SDL_free A_WindowData])
   \<and> KMSDRM_DestroyWindow kernel_ex viddata_open window_ex [poll_vblank] = None
   \<and> KMSDRM_DestroyWindow kernel_ex viddata_open window_ex [] = None"
proof -
  have w: "win_driverdata window_ex = Some windata_ex" by (simp add: window_ex_def)
  have h: "waiting_for_flip windata_ex \<and> [poll_vblank, poll_flip] = [poll_vblank] @ poll_flip # []
      \<and> (\<forall>q\<in>set [poll_vblank]. readable q \<and> DRM_EVENT_FLIP_COMPLETE \<notin> set (drm_events q))
      \<and> readable poll_flip \<and> DRM_EVENT_FLIP_COMPLETE \<in> set (drm_events poll_flip)"
    by (simp add: poll_simps)
  have h1: "waiting_for_flip windata_ex
      \<and> (\<forall>q\<in>set [poll_vblank]. readable q \<and> DRM_EVENT_FLIP_COMPLETE \<notin> set (drm_events q))"
    by (simp add: poll_simps)
  have h0: "waiting_for_flip windata_ex
      \<and> (\<forall>q\<in>set []. readable q \<and> DRM_EVENT_FLIP_COMPLETE \<notin> set (drm_events q))"
    by (simp add: poll_simps)
  have f: "curr_bo windata_ex = Some 10" "next_bo windata_ex = Some 11"
    "gs windata_ex = Some 1" "egl_surface windata_ex = Some 5"
    "SDL_VIDEO_OPENGL_EGL kernel_ex" "window_ex\<lparr>win_driverdata := None\<rparr> = \<lparr>win_driverdata = None\<rparr>"
    by (simp_all add: windata_ex_def kernel_ex_def window_ex_def)
  note T = DestroyWindow_order [OF w, of viddata_open _ kernel_ex]
  have a: "KMSDRM_DestroyWindow kernel_ex viddata_open window_ex [poll_vblank, poll_flip] =
        Some (\<lparr>win_driverdata = None\<rparr>,
              [Ev_poll 4 (- 1), Ev_drmHandleEvent 4, Ev_poll 4 (- 1), Ev_drmHandleEvent 4,
               Ev_gbm_surface_release_buffer (Some 1) 10,
               Ev_gbm_surface_release_buffer (Some 1) 11,
               Ev_SDL_EGL_MakeCurrent_none, Ev_SDL_EGL_DestroySurface 5,
               Ev_gbm_surface_destroy 1, Ev_SDL_free A_WindowData])"
    using T [of "[poll_vblank, poll_flip]", THEN conjunct2, THEN conjunct2, THEN conjunct2,
        THEN conjunct2, THEN conjunct2, THEN conjunct1, rule_format, OF h]
    by (auto simp add: f drm_fd_open)
  have b: "KMSDRM_DestroyWindow kernel_ex viddata_open window_ex [poll_vblank] = None"
    using T [of "[poll_vblank]", THEN conjunct2, THEN conjunct2, THEN conjunct2,
        THEN conjunct2, THEN conjunct1, rule_format, OF h1] .
  have c: "KMSDRM_DestroyWindow kernel_ex viddata_open window_ex [] = None"
    using T [of "[]", THEN conjunct2, THEN conjunct2, THEN conjunct2,
        THEN conjunct2, THEN conjunct1, rule_format, OF h0] .
  from a b c w show ?thesis by (simp add: poll_simps)
qed

end
